theory Spec2Isabelle
  imports Main "HOL-Library.List_Lexorder" "HOL-Library.Char_ord" "HOL-Library.Sublist"
begin

section \<open>Python values\<close>

text \<open>
  Request parameters and headers are optional strings. The provider tests most of them
  by truthiness (\<^verbatim>\<open>if if_none_match\<close>): \<^verbatim>\<open>None\<close> and the empty string are both
  false. Strings are compared as Python compares them, lexicographically by character.
\<close>

definition truthy :: "string option \<Rightarrow> bool" where
  "truthy v = (case v of None \<Rightarrow> False | Some s \<Rightarrow> s \<noteq> [])"

text \<open>\<^verbatim>\<open>x or ''\<close> for an optional string.\<close>

definition or_empty :: "string option \<Rightarrow> string" where
  "or_empty v = (case v of None \<Rightarrow> [] | Some s \<Rightarrow> s)"

text \<open>\<^verbatim>\<open>str.lower\<close> and \<^verbatim>\<open>str.upper\<close> on the ASCII letters.\<close>

definition lower_char :: "char \<Rightarrow> char" where
  "lower_char c =
     (case map_of (zip ''ABCDEFGHIJKLMNOPQRSTUVWXYZ'' ''abcdefghijklmnopqrstuvwxyz'') c of
        None \<Rightarrow> c | Some d \<Rightarrow> d)"

definition upper_char :: "char \<Rightarrow> char" where
  "upper_char c =
     (case map_of (zip ''abcdefghijklmnopqrstuvwxyz'' ''ABCDEFGHIJKLMNOPQRSTUVWXYZ'') c of
        None \<Rightarrow> c | Some d \<Rightarrow> d)"

definition lower :: "string \<Rightarrow> string" where
  "lower s = map lower_char s"

definition upper :: "string \<Rightarrow> string" where
  "upper s = map upper_char s"

text \<open>\<^verbatim>\<open>s.strip(c)\<close> for a single character: every leading and trailing \<open>c\<close> goes.\<close>

definition strip :: "char \<Rightarrow> string \<Rightarrow> string" where
  "strip c s = rev (dropWhile (\<lambda>x. x = c) (rev (dropWhile (\<lambda>x. x = c) s)))"

text \<open>\<^verbatim>\<open>s.startswith(p)\<close> is \<^const>\<open>prefix\<close>; \<^verbatim>\<open>s.removeprefix(p)\<close>:\<close>

definition removeprefix :: "string \<Rightarrow> string \<Rightarrow> string" where
  "removeprefix p s = (if prefix p s then drop (length p) s else s)"

text \<open>\<^verbatim>\<open>d in s\<close> for strings: \<open>d\<close> occurs in \<open>s\<close> as a contiguous substring.\<close>

fun str_contains :: "string \<Rightarrow> string \<Rightarrow> bool" where
  "str_contains d [] = (d = [])"
| "str_contains d (c # cs) = (prefix d (c # cs) \<or> str_contains d cs)"

text \<open>
  The first component of \<^verbatim>\<open>s.partition(d)\<close>: what precedes the first occurrence of
  \<open>d\<close> (all of \<open>s\<close> when there is none). The provider only calls it with a non-empty
  \<open>d\<close>, for which Python does not raise.
\<close>

fun partition_head :: "string \<Rightarrow> string \<Rightarrow> string" where
  "partition_head d [] = []"
| "partition_head d (c # cs) = (if prefix d (c # cs) then [] else c # partition_head d cs)"

section \<open>Errors\<close>

text \<open>
  Every exception the modelled code raises is a value. The string carried is the
  attribute that tells two raises of one exception apart (\<^verbatim>\<open>Header\<close>,
  \<^verbatim>\<open>Condition\<close>, \<^verbatim>\<open>ArgumentName\<close>, \<^verbatim>\<open>Key\<close>, or the message).
  \<open>PythonError\<close> is an exception of the interpreter that no handler catches.
\<close>

datatype error =
    NoSuchUpload
  | NotImplementedException string
  | PreconditionFailed string
  | ConditionalRequestConflict string
  | NoSuchKey string
  | InvalidRequest string
  | InvalidPartOrder
  | InvalidStorageClass string
  | InvalidDigest
  | BadDigest string
  | InvalidArgument string
  | AccessDenied
  | PythonError string
  | HelperError string

section \<open>Objects, buckets, provider state\<close>

record s3_object =
  key :: string
  version_id :: "string option"
  etag :: string
  size_bytes :: nat
  last_modified :: int
  checksum_algorithm :: "string option"
  checksum_value :: "string option"
  checksum_type :: "string option"
  kms_key_id :: "string option"

datatype s3_entry =
    S3Object s3_object
  | S3DeleteMarker string "string option"

text \<open>\<^verbatim>\<open>S3Object.quoted_etag\<close>: the etag between double quotes.\<close>

definition quoted_etag :: "s3_object \<Rightarrow> string" where
  "quoted_etag obj = CHR 0x22 # etag obj @ [CHR 0x22]"

record s3_multipart =
  mp_object :: s3_object
  initiated :: int
  precondition :: bool
  mp_checksum_algorithm :: "string option"
  mp_checksum_type :: "string option"
  tagging :: "(string \<times> string) list option"

text \<open>
  Modelled from the spec: the key store of a bucket (\<^verbatim>\<open>KeyStore\<close> and
  \<^verbatim>\<open>VersionedKeyStore\<close> live in the models module, which is not part of the
  sources at hand). The store is the association list from each key to its versions,
  newest first, the keys in insertion order as in the Python dict. \<^verbatim>\<open>get(key)\<close>
  returns the current version, \<^verbatim>\<open>get(key, version_id)\<close> the named version or nothing;
  \<^verbatim>\<open>set\<close> makes the entry the current version of its key (in a bucket without
  versioning, where the entry has no version id, the only one); \<^verbatim>\<open>pop(key)\<close> removes
  all versions and returns the current one; \<^verbatim>\<open>pop(key, version_id)\<close> removes one
  version, the next newest becoming current; \<^verbatim>\<open>values()\<close> gives one entry per key,
  the current version. The listing code reads the etag and the size of every value, which
  a delete marker does not have, so \<^verbatim>\<open>values()\<close> gives the current versions that are
  objects.
\<close>

type_synonym key_store = "(string \<times> s3_entry list) list"

fun entry_version_id :: "s3_entry \<Rightarrow> string option" where
  "entry_version_id (S3Object obj) = version_id obj"
| "entry_version_id (S3DeleteMarker k v) = v"

definition ks_versions :: "key_store \<Rightarrow> string \<Rightarrow> s3_entry list" where
  "ks_versions store k = (case map_of store k of None \<Rightarrow> [] | Some vs \<Rightarrow> vs)"

definition ks_get :: "key_store \<Rightarrow> string \<Rightarrow> s3_entry option" where
  "ks_get store k = (case ks_versions store k of [] \<Rightarrow> None | e # _ \<Rightarrow> Some e)"

definition ks_get_version :: "key_store \<Rightarrow> string \<Rightarrow> string \<Rightarrow> s3_entry option" where
  "ks_get_version store k v = find (\<lambda>e. entry_version_id e = Some v) (ks_versions store k)"

definition ks_contains :: "key_store \<Rightarrow> string \<Rightarrow> bool" where
  "ks_contains store k = (ks_versions store k \<noteq> [])"

definition ks_put :: "key_store \<Rightarrow> string \<Rightarrow> s3_entry list \<Rightarrow> key_store" where
  "ks_put store k vs =
     (if k \<in> fst ` set store
        then map (\<lambda>(k', vs'). if k' = k then (k', vs) else (k', vs')) store
      else store @ [(k, vs)])"

definition ks_set :: "key_store \<Rightarrow> string \<Rightarrow> s3_entry \<Rightarrow> key_store" where
  "ks_set store k e =
     (case entry_version_id e of
        None \<Rightarrow> ks_put store k [e]
      | Some v \<Rightarrow>
          ks_put store k (e # filter (\<lambda>e'. entry_version_id e' \<noteq> Some v) (ks_versions store k)))"

definition ks_pop :: "key_store \<Rightarrow> string \<Rightarrow> s3_entry option \<times> key_store" where
  "ks_pop store k = (ks_get store k, filter (\<lambda>(k', vs). k' \<noteq> k) store)"

definition ks_pop_version :: "key_store \<Rightarrow> string \<Rightarrow> string \<Rightarrow> key_store" where
  "ks_pop_version store k v =
     (let vs = filter (\<lambda>e. entry_version_id e \<noteq> Some v) (ks_versions store k) in
      if vs = [] then filter (\<lambda>(k', vs'). k' \<noteq> k) store else ks_put store k vs)"

definition ks_values :: "key_store \<Rightarrow> s3_object list" where
  "ks_values store =
     concat (map (\<lambda>(k, vs). case vs of S3Object obj # _ \<Rightarrow> [obj] | _ \<Rightarrow> []) store)"

record s3_bucket =
  versioning_status :: "string option"
  object_lock_enabled :: bool
  objects :: key_store
  multiparts :: "(string \<times> s3_multipart) list"

text \<open>
  What an operation leaves behind besides its result: calls on the storage backend and
  notifications, in the order they happen.
\<close>

datatype effect =
    StorageOpen string
  | StorageWrite string
  | StorageRemove string
  | StorageCompleteMultipart string
  | StorageRemoveMultipart string
  | Notify string

text \<open>
  The state an operation runs in, after \<^verbatim>\<open>_get_cross_account_bucket\<close> has resolved
  the bucket of the request: the bucket, the tag table of the store, the number of version
  ids generated so far, and the effects so far. A raised exception keeps the state as it
  is at the raise, as Python does.
\<close>

record provider_state =
  bucket :: s3_bucket
  tags :: "(string \<times> (string \<times> string) list) list"
  ids_generated :: nat
  effects :: "effect list"

definition log_effect :: "effect \<Rightarrow> provider_state \<Rightarrow> provider_state" where
  "log_effect e st = st\<lparr>effects := effects st @ [e]\<rparr>"

definition tags_pop :: "string \<Rightarrow> provider_state \<Rightarrow> provider_state" where
  "tags_pop key_id st = st\<lparr>tags := filter (\<lambda>(k, t). k \<noteq> key_id) (tags st)\<rparr>"

definition tags_set :: "string \<Rightarrow> (string \<times> string) list \<Rightarrow> provider_state \<Rightarrow> provider_state" where
  "tags_set key_id t st = st\<lparr>tags := filter (\<lambda>(k, t). k \<noteq> key_id) (tags st) @ [(key_id, t)]\<rparr>"

definition set_object :: "string \<Rightarrow> s3_entry \<Rightarrow> provider_state \<Rightarrow> provider_state" where
  "set_object k e st = st\<lparr>bucket := (bucket st)\<lparr>objects := ks_set (objects (bucket st)) k e\<rparr>\<rparr>"

text \<open>The first exception of a run of helper calls that have no other effect.\<close>

fun first_error :: "error option list \<Rightarrow> error option" where
  "first_error [] = None"
| "first_error (None # es) = first_error es"
| "first_error (Some e # es) = Some e"

section \<open>Version ids\<close>

text \<open>
  \<^verbatim>\<open>generate_safe_version_id\<close> is a helper outside the file; it draws a random
  token. It is a parameter \<open>gen\<close>: the token of the \<open>n\<close>-th call. \<open>generate_version_id\<close>
  calls it only for a bucket whose status, lowercased, is \<^verbatim>\<open>enabled\<close>.
\<close>

definition generate_version_id ::
  "(nat \<Rightarrow> string) \<Rightarrow> string option \<Rightarrow> provider_state \<Rightarrow> string option \<times> provider_state" where
  "generate_version_id gen bucket_versioning_status st =
     (if \<not> truthy bucket_versioning_status then (None, st)
      else if lower (the bucket_versioning_status) = ''enabled''
        then (Some (gen (ids_generated st)), st\<lparr>ids_generated := Suc (ids_generated st)\<rparr>)
      else (Some ''null'', st))"

section \<open>Preconditions of a write\<close>

definition object_exists_for_precondition_write :: "s3_bucket \<Rightarrow> string \<Rightarrow> bool" where
  "object_exists_for_precondition_write s3_bucket k =
     (case ks_get (objects s3_bucket) k of
        None \<Rightarrow> False
      | Some (S3DeleteMarker _ _) \<Rightarrow> False
      | Some (S3Object _) \<Rightarrow> True)"

text \<open>
  \<open>None\<close> is the normal return. \<open>initiated\<close> is a datetime when given, and a datetime
  is always true in Python, so \<^verbatim>\<open>if initiated and ...\<close> tests its presence.
\<close>

definition verify_object_equality_precondition_write ::
  "s3_bucket \<Rightarrow> string \<Rightarrow> string \<Rightarrow> int option \<Rightarrow> error option" where
  "verify_object_equality_precondition_write s3_bucket k etag_header initiated_at =
     (case ks_get (objects s3_bucket) k of
        None \<Rightarrow> Some (NoSuchKey k)
      | Some (S3DeleteMarker _ _) \<Rightarrow> Some (NoSuchKey k)
      | Some (S3Object existing) \<Rightarrow>
          if \<not> (etag existing = strip (CHR 0x22) etag_header)
            then Some (PreconditionFailed ''If-Match'')
          else (case initiated_at of
              None \<Rightarrow> None
            | Some t \<Rightarrow>
                if t < last_modified existing
                  then Some (ConditionalRequestConflict ''If-Match'')
                else None))"

section \<open>Requests and helpers\<close>

text \<open>
  The fields the modelled code reads from a request. \<open>PutObjectRequest\<close> and
  \<open>CreateMultipartUploadRequest\<close> share the first ones.
\<close>

record object_write_request =
  Key :: string
  StorageClass :: "string option"
  SSEKMSKeyId :: "string option"
  Tagging :: "string option"
  SSECustomerKeyMD5 :: "string option"

record put_object_request = object_write_request +
  IfMatch :: "string option"
  IfNoneMatch :: "string option"
  ContentMD5 :: "string option"

record create_multipart_upload_request = object_write_request +
  ChecksumAlgorithm :: "string option"
  ChecksumType :: "string option"

text \<open>
  A part of the request body is a dict; the code reads its number with
  \<^verbatim>\<open>part.get("PartNumber")\<close>, which is \<open>None\<close> for a part without one.
\<close>

record completed_part =
  PartNumber :: "int option"
  PartETag :: string

record completed_multipart_upload =
  Parts :: "completed_part list option"

text \<open>
  What the operations take from outside the file: module constants, the validators and
  parsers of the utils, validation and models modules (each gives the exception it
  raises, if any, and otherwise its value), and what the request layer and the storage
  backend report for the request at hand (whether the body is \<^verbatim>\<open>aws-chunked\<close>, the
  etag, size and checksum the backend computed over the body, the time of the commit).
  \<open>'r\<close> is the type of the request the helper reads.
\<close>

record 'r helpers =
  STORAGE_CLASSES :: "string list"
  CHECKSUM_ALGORITHMS :: "string list"
  S3_SKIP_KMS_KEY_VALIDATION :: bool
  validate_kms_key_id :: "string \<Rightarrow> error option"
  validate_object_key :: "string \<Rightarrow> error option"
  get_system_metadata_from_request :: "'r \<Rightarrow> error option"
  generate_safe_version_id :: "nat \<Rightarrow> string"
  base_64_content_md5_to_etag :: "string \<Rightarrow> string option"
  get_s3_checksum_algorithm_from_request :: "'r \<Rightarrow> error + string option"
  request_checksum_value :: "'r \<Rightarrow> string \<Rightarrow> string option"
  validate_sse_c :: "'r \<Rightarrow> error option"
  get_encryption_parameters_from_request_and_bucket :: "'r \<Rightarrow> error option"
  get_object_lock_parameters_from_bucket_and_request :: "'r \<Rightarrow> error option"
  get_access_control_policy_for_new_resource_request :: "'r \<Rightarrow> error option"
  parse_tagging_header :: "string \<Rightarrow> error + (string \<times> string) list"
  is_aws_chunked :: bool
  get_s3_checksum_algorithm_from_trailing_headers :: "string option"
  decoded_content_length :: "error option"
  storage_open :: "error option"
  storage_write :: "error option"
  stored_etag :: string
  stored_size :: nat
  stored_checksum :: "string option"
  stored_last_modified :: int
  validate_checksum_value :: "string \<Rightarrow> string option \<Rightarrow> bool"
  etag_to_base_64_content_md5 :: "string \<Rightarrow> string"
  get_unique_key_id :: "string \<Rightarrow> string option \<Rightarrow> string"
  is_locked :: "s3_entry \<Rightarrow> bool option \<Rightarrow> bool"
  new_multipart_id :: string
  supports_mpu_size :: bool
  complete_multipart ::
    "s3_multipart \<Rightarrow> completed_part list \<Rightarrow> int option \<Rightarrow> string option \<Rightarrow> error + s3_object"
  storage_complete_multipart :: "error option"

section \<open>PutObject\<close>

record put_object_output =
  ETag :: string
  VersionId :: "string option"
  PutChecksumAlgorithm :: "string option"
  PutChecksumValue :: "string option"

text \<open>
  The checks at the head of \<open>put_object\<close>: the storage class, the KMS key id, the
  object key. \<open>None\<close>: all pass.
\<close>

definition put_object_validate :: "put_object_request helpers \<Rightarrow> put_object_request \<Rightarrow> error option" where
  "put_object_validate h request =
     (if StorageClass request \<noteq> None \<and>
         (the (StorageClass request) \<notin> set (STORAGE_CLASSES h) \<or>
          the (StorageClass request) = ''OUTPOSTS'')
        then Some (InvalidStorageClass (the (StorageClass request)))
      else first_error
          [if \<not> S3_SKIP_KMS_KEY_VALIDATION h \<and> truthy (SSEKMSKeyId request)
             then validate_kms_key_id h (the (SSEKMSKeyId request)) else None,
           validate_object_key h (Key request)])"

text \<open>The two checks on the conditional headers that follow. \<open>None\<close>: both pass.\<close>

definition put_object_conditional_headers :: "put_object_request \<Rightarrow> error option" where
  "put_object_conditional_headers request =
     (let if_match = IfMatch request; if_none_match = IfNoneMatch request in
      if truthy if_none_match \<and> truthy if_match
        then Some (NotImplementedException ''If-Match,If-None-Match'')
      else if (truthy if_none_match \<and> if_none_match \<noteq> Some ''*'') \<or>
              (truthy if_match \<and> if_match = Some ''*'')
        then Some (NotImplementedException
               (if truthy if_none_match then ''If-None-Match'' else ''If-Match''))
      else None)"

text \<open>
  From the Content-MD5 header to the tagging header: the checksum algorithm and value
  of the object record (its other fields come from helpers and are read by none of the
  checks), and the parsed tagging.
\<close>

definition put_object_prepare ::
  "put_object_request helpers \<Rightarrow> put_object_request \<Rightarrow>
     error + (string option \<times> string option \<times> (string \<times> string) list option)" where
  "put_object_prepare h request =
     (let etag_content_md5 =
        (if truthy (ContentMD5 request)
           then base_64_content_md5_to_etag h (the (ContentMD5 request)) else Some []) in
      if truthy (ContentMD5 request) \<and> \<not> truthy etag_content_md5 then Inl InvalidDigest
      else case get_s3_checksum_algorithm_from_request h request of
        Inl e \<Rightarrow> Inl e
      | Inr algorithm \<Rightarrow>
     (let given_value =
        (if truthy algorithm
           then request_checksum_value h request (upper (the algorithm)) else None) in
      case first_error
          [validate_sse_c h request,
           get_encryption_parameters_from_request_and_bucket h request,
           get_object_lock_parameters_from_bucket_and_request h request,
           get_access_control_policy_for_new_resource_request h request] of
        Some e \<Rightarrow> Inl e
      | None \<Rightarrow>
          if truthy (Tagging request)
            then (case parse_tagging_header h (the (Tagging request)) of
                Inl e \<Rightarrow> Inl e
              | Inr t \<Rightarrow> Inr (algorithm, given_value, Some t))
          else Inr (algorithm, given_value, None)))"

text \<open>
  The chunked-body branch: the trailing headers may name the checksum algorithm of the
  object when the request did not.
\<close>

definition put_object_chunked ::
  "put_object_request helpers \<Rightarrow> string option \<Rightarrow> error + (string option \<times> string option)" where
  "put_object_chunked h algorithm =
     (if is_aws_chunked h
        then (let algorithm' =
                (if truthy algorithm then algorithm
                 else get_s3_checksum_algorithm_from_trailing_headers h) in
              case decoded_content_length h of
                Some e \<Rightarrow> Inl e
              | None \<Rightarrow> Inr (algorithm', if truthy algorithm' then algorithm' else algorithm))
      else Inr (algorithm, algorithm))"

text \<open>
  The checks that follow the write of the body: the checksum of the request against the
  one the backend computed, and the Content-MD5 header against the etag. \<open>algorithm\<close> is
  the local variable \<^verbatim>\<open>checksum_algorithm\<close>, \<open>object_algorithm\<close> the field of the
  object (a chunked request may set the first and leave the second). \<open>None\<close>: all pass.
\<close>

definition put_object_body_checks ::
  "put_object_request helpers \<Rightarrow> put_object_request \<Rightarrow> string option \<Rightarrow> string option \<Rightarrow>
     string option \<Rightarrow> error option" where
  "put_object_body_checks h request algorithm object_algorithm given_value =
     (if truthy object_algorithm \<and> truthy given_value \<and>
         \<not> validate_checksum_value h (the given_value) algorithm
        then Some (InvalidRequest (''Value for x-amz-checksum-'' @ lower (the object_algorithm)
                     @ '' header is invalid.''))
      else if truthy object_algorithm \<and> truthy given_value \<and>
              given_value \<noteq> stored_checksum h
        then (case algorithm of
              None \<Rightarrow> Some (PythonError ''AttributeError'')
            | Some a \<Rightarrow> Some (BadDigest (''The '' @ upper a
                     @ '' you specified did not match the calculated checksum.'')))
      else if truthy (ContentMD5 request) \<and>
              etag_to_base_64_content_md5 h (stored_etag h) \<noteq> the (ContentMD5 request)
        then Some (BadDigest ''The Content-MD5 you specified did not match what we received.'')
      else None)"

text \<open>
  The body of the \<^verbatim>\<open>with self._storage_backend.open(...)\<close> block: the conditional
  checks under the writer guard, the write, the checks on the body (a failure removes the
  stored bytes), the commit to the key store.
\<close>

definition put_object_store ::
  "put_object_request helpers \<Rightarrow> put_object_request \<Rightarrow> string option \<Rightarrow> string option \<Rightarrow>
     string option \<Rightarrow> string option \<Rightarrow> provider_state \<Rightarrow> (error + s3_object) \<times> provider_state" where
  "put_object_store h request version algorithm object_algorithm given_value st0 =
     (let k = Key request; if_match = IfMatch request; if_none_match = IfNoneMatch request in
      case storage_open h of
        Some e \<Rightarrow> (Inl e, st0)
      | None \<Rightarrow>
     (let st1 = log_effect (StorageOpen k) st0 in
      if truthy if_none_match \<and> object_exists_for_precondition_write (bucket st1) k
        then (Inl (PreconditionFailed ''If-None-Match''), st1)
      else case (if truthy if_match
                   then verify_object_equality_precondition_write (bucket st1) k (the if_match) None
                 else None) of
        Some e \<Rightarrow> (Inl e, st1)
      | None \<Rightarrow>
     (case storage_write h of
        Some e \<Rightarrow> (Inl e, st1)
      | None \<Rightarrow>
     (let st2 = log_effect (StorageWrite k) st1 in
      case put_object_body_checks h request algorithm object_algorithm given_value of
        Some e \<Rightarrow> (Inl e, log_effect (StorageRemove k) st2)
      | None \<Rightarrow>
        (let s3_object = \<lparr>key = k, version_id = version, etag = stored_etag h,
               size_bytes = stored_size h, last_modified = stored_last_modified h,
               checksum_algorithm = object_algorithm,
               checksum_value =
                 (if truthy object_algorithm \<and> \<not> truthy given_value
                    then stored_checksum h else given_value),
               checksum_type = None, kms_key_id = None\<rparr> in
         (Inr s3_object, set_object k (S3Object s3_object) st2))))))"

text \<open>After the block: the tag entry of the version, the response, the notification.\<close>

definition put_object_finish ::
  "put_object_request helpers \<Rightarrow> (string \<times> string) list option \<Rightarrow> s3_object \<Rightarrow> provider_state \<Rightarrow>
     put_object_output \<times> provider_state" where
  "put_object_finish h tagging_parsed s3_object st =
     (let key_id = get_unique_key_id h (key s3_object) (version_id s3_object);
          st1 = tags_pop key_id st;
          st2 = (case tagging_parsed of
                   None \<Rightarrow> st1
                 | Some t \<Rightarrow> if t = [] then st1 else tags_set key_id t st1);
          response = \<lparr>ETag = quoted_etag s3_object,
             VersionId = (if versioning_status (bucket st2) = Some ''Enabled''
                          then version_id s3_object else None),
             PutChecksumAlgorithm = (if truthy (checksum_algorithm s3_object)
                          then checksum_algorithm s3_object else None),
             PutChecksumValue = (if truthy (checksum_algorithm s3_object)
                          then checksum_value s3_object else None)\<rparr> in
      (response, log_effect (Notify (key s3_object)) st2))"

definition put_object ::
  "put_object_request helpers \<Rightarrow> provider_state \<Rightarrow> put_object_request \<Rightarrow>
     (error + put_object_output) \<times> provider_state" where
  "put_object h st request =
     (case put_object_validate h request of
        Some e \<Rightarrow> (Inl e, st)
      | None \<Rightarrow>
     (case put_object_conditional_headers request of
        Some e \<Rightarrow> (Inl e, st)
      | None \<Rightarrow>
     (case get_system_metadata_from_request h request of
        Some e \<Rightarrow> (Inl e, st)
      | None \<Rightarrow>
     (case generate_version_id (generate_safe_version_id h) (versioning_status (bucket st)) st of
        (version, st1) \<Rightarrow>
     (case put_object_prepare h request of
        Inl e \<Rightarrow> (Inl e, st1)
      | Inr (algorithm0, given_value, tagging_parsed) \<Rightarrow>
     (case put_object_chunked h algorithm0 of
        Inl e \<Rightarrow> (Inl e, st1)
      | Inr (algorithm, object_algorithm) \<Rightarrow>
     (case put_object_store h request version algorithm object_algorithm given_value st1 of
        (Inl e, st2) \<Rightarrow> (Inl e, st2)
      | (Inr s3_object, st2) \<Rightarrow>
          (case put_object_finish h tagging_parsed s3_object st2 of
             (response, st3) \<Rightarrow> (Inr response, st3)))))))))"

section \<open>CreateMultipartUpload\<close>

record create_multipart_upload_output =
  UploadId :: string
  ResponseChecksumAlgorithm :: "string option"
  ResponseChecksumType :: "string option"

text \<open>
  The checksum algorithm and type of a new upload (the block of \<open>create_multipart_upload\<close>
  between the system metadata and the SSE-C validation). The values of the
  \<^verbatim>\<open>ChecksumType\<close> and \<^verbatim>\<open>ChecksumAlgorithm\<close> enumerations are their names. The
  result is the type the upload gets.
\<close>

definition create_multipart_upload_checksum ::
  "'r helpers \<Rightarrow> string option \<Rightarrow> string option \<Rightarrow> error + string option" where
  "create_multipart_upload_checksum h algorithm given_type =
     (if truthy algorithm \<and> the algorithm \<notin> set (CHECKSUM_ALGORITHMS h)
        then Inl (InvalidRequest (''Checksum algorithm provided is unsupported. ''
               @ ''Please try again with any of the valid types: [CRC32, CRC32C, SHA1, SHA256]''))
      else if \<not> truthy given_type \<and> truthy algorithm
        then (if algorithm = Some ''CRC64NVME''
                then Inr (Some ''FULL_OBJECT'')
              else Inr (Some ''COMPOSITE''))
      else if truthy given_type \<and> \<not> truthy algorithm
        then Inl (InvalidRequest (''The x-amz-checksum-type header can only be used ''
               @ ''with the x-amz-checksum-algorithm header.''))
      else if given_type = Some ''COMPOSITE'' \<and> algorithm = Some ''CRC64NVME''
        then Inl (InvalidRequest (''The COMPOSITE checksum type cannot be used ''
               @ ''with the crc64nvme checksum algorithm.''))
      else if given_type = Some ''FULL_OBJECT''
        then (case algorithm of
                None \<Rightarrow> Inl (PythonError ''AttributeError'')
              | Some a \<Rightarrow>
                  if prefix ''SHA'' (upper a)
                    then Inl (InvalidRequest (''The FULL_OBJECT checksum type cannot be used ''
                           @ ''with the '' @ lower a @ '' checksum algorithm.''))
                  else Inr given_type)
      else Inr given_type)"

text \<open>
  The checks at the head of \<open>create_multipart_upload\<close>: the storage class, the KMS key
  id, the tagging header (whose parsed value is the result), the system metadata.
\<close>

definition create_multipart_upload_validate ::
  "create_multipart_upload_request helpers \<Rightarrow> create_multipart_upload_request \<Rightarrow>
     error + (string \<times> string) list option" where
  "create_multipart_upload_validate h request =
     (if StorageClass request \<noteq> None \<and>
         (the (StorageClass request) \<notin> set (STORAGE_CLASSES h) \<or>
          the (StorageClass request) = ''OUTPOSTS'')
        then Inl (InvalidStorageClass (the (StorageClass request)))
      else case (if \<not> S3_SKIP_KMS_KEY_VALIDATION h \<and> truthy (SSEKMSKeyId request)
                   then validate_kms_key_id h (the (SSEKMSKeyId request)) else None) of
        Some e \<Rightarrow> Inl e
      | None \<Rightarrow>
     (case (if truthy (Tagging request)
              then map_sum id Some (parse_tagging_header h (the (Tagging request)))
            else Inr None) of
        Inl e \<Rightarrow> Inl e
      | Inr tagging_parsed \<Rightarrow>
     (case get_system_metadata_from_request h request of
        Some e \<Rightarrow> Inl e
      | None \<Rightarrow> Inr tagging_parsed)))"

text \<open>
  The helpers called between the checksum block and the creation of the upload: SSE-C,
  encryption parameters, object lock parameters, access control policy.
\<close>

definition create_multipart_upload_parameters ::
  "create_multipart_upload_request helpers \<Rightarrow> create_multipart_upload_request \<Rightarrow> error option" where
  "create_multipart_upload_parameters h request =
     first_error
       [validate_sse_c h request,
        get_encryption_parameters_from_request_and_bucket h request,
        get_object_lock_parameters_from_bucket_and_request h request,
        get_access_control_policy_for_new_resource_request h request]"

text \<open>
  The upload itself: its object in progress, the \<^verbatim>\<open>precondition\<close> (whether an object
  exists for the key now), its registration in the bucket, and the response.
\<close>

definition create_multipart_upload_register ::
  "create_multipart_upload_request helpers \<Rightarrow> provider_state \<Rightarrow> create_multipart_upload_request \<Rightarrow>
     (string \<times> string) list option \<Rightarrow> string option \<Rightarrow>
     create_multipart_upload_output \<times> provider_state" where
  "create_multipart_upload_register h st request tagging_parsed upload_type =
     (let s3_multipart = \<lparr>mp_object = \<lparr>key = Key request, version_id = None, etag = [],
              size_bytes = 0, last_modified = stored_last_modified h,
              checksum_algorithm =
                (if truthy (SSECustomerKeyMD5 request) then None else ChecksumAlgorithm request),
              checksum_value = None, checksum_type = upload_type, kms_key_id = None\<rparr>,
            initiated = stored_last_modified h,
            precondition = object_exists_for_precondition_write (bucket st) (Key request),
            mp_checksum_algorithm = ChecksumAlgorithm request,
            mp_checksum_type = upload_type,
            tagging = tagging_parsed\<rparr>;
          st1 = st\<lparr>bucket := (bucket st)\<lparr>multiparts :=
                  filter (\<lambda>(i, m). i \<noteq> new_multipart_id h) (multiparts (bucket st))
                    @ [(new_multipart_id h, s3_multipart)]\<rparr>\<rparr>;
          response = \<lparr>UploadId = new_multipart_id h,
             ResponseChecksumAlgorithm =
               (if truthy (ChecksumAlgorithm request) then ChecksumAlgorithm request else None),
             ResponseChecksumType =
               (if truthy (ChecksumAlgorithm request) then upload_type else None)\<rparr> in
      (response, st1))"

definition create_multipart_upload ::
  "create_multipart_upload_request helpers \<Rightarrow> provider_state \<Rightarrow> create_multipart_upload_request \<Rightarrow>
     (error + create_multipart_upload_output) \<times> provider_state" where
  "create_multipart_upload h st request =
     (case create_multipart_upload_validate h request of
        Inl e \<Rightarrow> (Inl e, st)
      | Inr tagging_parsed \<Rightarrow>
     (case create_multipart_upload_checksum h (ChecksumAlgorithm request) (ChecksumType request) of
        Inl e \<Rightarrow> (Inl e, st)
      | Inr upload_type \<Rightarrow>
     (case create_multipart_upload_parameters h request of
        Some e \<Rightarrow> (Inl e, st)
      | None \<Rightarrow>
     (case create_multipart_upload_register h st request tagging_parsed upload_type of
        (response, st1) \<Rightarrow> (Inr response, st1)))))"

section \<open>CompleteMultipartUpload\<close>

record complete_multipart_upload_request =
  cmu_key :: string
  cmu_upload_id :: string
  multipart_upload :: "completed_multipart_upload option"
  checksum_crc32 :: "string option"
  checksum_crc32_c :: "string option"
  checksum_crc64_nvme :: "string option"
  checksum_sha1 :: "string option"
  checksum_sha256 :: "string option"
  cmu_checksum_type :: "string option"
  mpu_object_size :: "int option"
  if_match :: "string option"
  if_none_match :: "string option"

record complete_multipart_upload_output =
  cmu_ETag :: string
  cmu_VersionId :: "string option"
  cmu_ChecksumValue :: "string option"
  cmu_ChecksumType :: "string option"

text \<open>The checks on the conditional headers. \<open>None\<close>: all pass.\<close>

definition complete_multipart_upload_preconditions ::
  "s3_bucket \<Rightarrow> s3_multipart \<Rightarrow> complete_multipart_upload_request \<Rightarrow> error option" where
  "complete_multipart_upload_preconditions s3_bucket s3_multipart request =
     (let k = cmu_key request in
      if truthy (if_none_match request) \<and> truthy (if_match request)
        then Some (NotImplementedException ''If-Match,If-None-Match'')
      else if truthy (if_none_match request)
        then (if if_none_match request \<noteq> Some ''*''
                then Some (NotImplementedException ''If-None-Match'')
              else if object_exists_for_precondition_write s3_bucket k
                then Some (PreconditionFailed ''If-None-Match'')
              else if precondition s3_multipart
                then Some (ConditionalRequestConflict ''If-None-Match'')
              else None)
      else if truthy (if_match request)
        then (if if_match request = Some ''*''
                then Some (NotImplementedException ''If-None-Match'')
              else verify_object_equality_precondition_write s3_bucket k
                     (the (if_match request)) (Some (initiated s3_multipart)))
      else None)"

text \<open>
  The checks on the list of parts: the parts are there, and
  \<^verbatim>\<open>sorted(parts_numbers) != parts_numbers\<close> does not hold. A request without a
  \<^verbatim>\<open>multipart_upload\<close> ends in the \<^verbatim>\<open>AttributeError\<close> of \<^verbatim>\<open>None.get\<close>.
  \<^verbatim>\<open>sorted\<close> compares every element of a list of two or more with another one, and
  \<^verbatim>\<open><\<close> raises \<^verbatim>\<open>TypeError\<close> when one side is \<open>None\<close>: a list of two or more
  numbers with a missing one ends there. A list of one element is compared with nothing
  and is its own sorting.
\<close>

definition complete_multipart_upload_parts ::
  "complete_multipart_upload_request \<Rightarrow> error + completed_part list" where
  "complete_multipart_upload_parts request =
     (case multipart_upload request of
        None \<Rightarrow> Inl (PythonError ''AttributeError'')
      | Some mpu \<Rightarrow>
     (let parts = (case Parts mpu of None \<Rightarrow> [] | Some ps \<Rightarrow> ps) in
      if parts = [] then Inl (InvalidRequest ''You must specify at least one part'')
      else (let parts_numbers = map PartNumber parts in
            if length parts_numbers > 1 \<and> None \<in> set parts_numbers
              then Inl (PythonError ''TypeError'')
            else if None \<notin> set parts_numbers \<and>
                    sort (map the parts_numbers) \<noteq> map the parts_numbers
              then Inl InvalidPartOrder
            else Inr parts)))"

text \<open>
  The last check before the completion, on the checksums of the request: a checksum for
  the algorithm of the upload when its type is \<^verbatim>\<open>FULL_OBJECT\<close> and the request names
  no type, or a checksum for any other algorithm.
\<close>

definition complete_multipart_upload_bad_digest ::
  "s3_multipart \<Rightarrow> complete_multipart_upload_request \<Rightarrow> bool" where
  "complete_multipart_upload_bad_digest s3_multipart request =
     (let algorithm = (if truthy (mp_checksum_algorithm s3_multipart)
                         then Some (lower (the (mp_checksum_algorithm s3_multipart))) else None);
          checksum_map = [(''crc32'', checksum_crc32 request),
                          (''crc32c'', checksum_crc32_c request),
                          (''crc64nvme'', checksum_crc64_nvme request),
                          (''sha1'', checksum_sha1 request),
                          (''sha256'', checksum_sha256 request)];
          given = (case algorithm of None \<Rightarrow> None
                   | Some a \<Rightarrow> (case map_of checksum_map a of None \<Rightarrow> None | Some v \<Rightarrow> v)) in
      truthy (mp_checksum_algorithm s3_multipart) \<and>
      ((truthy given \<and> mp_checksum_type s3_multipart = Some ''FULL_OBJECT'' \<and>
        \<not> truthy (cmu_checksum_type request)) \<or>
       (\<exists>(t, v) \<in> set checksum_map. Some t \<noteq> algorithm \<and> truthy v)))"

text \<open>
  What follows the checks on the parts: the checksum mode, the version id, the completion
  of the upload in the models module, the storage backend, the commit to the key store,
  the removal of the upload, the tags, the response and the notification.
\<close>

definition complete_multipart_upload_finish ::
  "complete_multipart_upload_request helpers \<Rightarrow> provider_state \<Rightarrow> s3_multipart \<Rightarrow>
     complete_multipart_upload_request \<Rightarrow> completed_part list \<Rightarrow>
     (error + complete_multipart_upload_output) \<times> provider_state" where
  "complete_multipart_upload_finish h st s3_multipart request parts =
     (let k = cmu_key request in
      if truthy (cmu_checksum_type request) \<and>
         cmu_checksum_type request \<noteq> mp_checksum_type s3_multipart
        then (Inl (InvalidRequest (''The upload was created using the ''
                @ (if truthy (mp_checksum_type s3_multipart)
                     then the (mp_checksum_type s3_multipart) else ''null'')
                @ '' checksum mode. The complete request must use the same checksum mode.'')), st)
      else case generate_version_id (generate_safe_version_id h)
                  (versioning_status (bucket st)) st of
        (version, st1) \<Rightarrow>
     (let algorithm = (if truthy (mp_checksum_algorithm s3_multipart)
                         then Some (lower (the (mp_checksum_algorithm s3_multipart))) else None);
          given = (case algorithm of None \<Rightarrow> None
                   | Some a \<Rightarrow>
                       (case map_of [(''crc32'', checksum_crc32 request),
                                     (''crc32c'', checksum_crc32_c request),
                                     (''crc64nvme'', checksum_crc64_nvme request),
                                     (''sha1'', checksum_sha1 request),
                                     (''sha256'', checksum_sha256 request)] a of
                          None \<Rightarrow> None | Some v \<Rightarrow> v));
          s3_multipart1 = s3_multipart\<lparr>mp_object := (mp_object s3_multipart)\<lparr>version_id := version\<rparr>\<rparr>
      in
      case (if supports_mpu_size h
              then complete_multipart h s3_multipart1 parts (mpu_object_size request) given
            else complete_multipart h s3_multipart1 parts None None) of
        Inl e \<Rightarrow> (Inl e, st1)
      | Inr completed \<Rightarrow>
     (if supports_mpu_size h \<and> complete_multipart_upload_bad_digest s3_multipart request
        then (Inl (BadDigest (''The '' @ lower (the (mp_checksum_algorithm s3_multipart))
                @ '' you specified did not match the calculated checksum.'')), st1)
      else case storage_complete_multipart h of
        Some e \<Rightarrow> (Inl e, st1)
      | None \<Rightarrow>
     (let st2 = log_effect (StorageCompleteMultipart k) st1;
          s3_object =
            (if \<not> truthy (mp_checksum_algorithm s3_multipart) \<and>
                truthy (checksum_algorithm completed)
               then completed\<lparr>checksum_value := stored_checksum h,
                               checksum_type := Some ''FULL_OBJECT''\<rparr>
             else completed);
          st3 = set_object k (S3Object s3_object) st2;
          st4 = log_effect (StorageRemoveMultipart k) st3;
          st5 = st4\<lparr>bucket := (bucket st4)\<lparr>multiparts :=
                  filter (\<lambda>(i, m). i \<noteq> cmu_upload_id request) (multiparts (bucket st4))\<rparr>\<rparr>;
          key_id = get_unique_key_id h k version;
          st6 = tags_pop key_id st5;
          st7 = (case tagging s3_multipart of
                   None \<Rightarrow> st6
                 | Some t \<Rightarrow> if t = [] then st6 else tags_set key_id t st6);
          with_checksum = (truthy (checksum_algorithm s3_object) \<and> \<not> truthy (kms_key_id s3_object));
          response = \<lparr>cmu_ETag = quoted_etag s3_object,
             cmu_VersionId = (if truthy (version_id s3_object) then version_id s3_object else None),
             cmu_ChecksumValue = (if with_checksum then checksum_value s3_object else None),
             cmu_ChecksumType = (if with_checksum then checksum_type s3_object else None)\<rparr> in
      (Inr response, log_effect (Notify k) st7)))))"

definition complete_multipart_upload ::
  "complete_multipart_upload_request helpers \<Rightarrow> provider_state \<Rightarrow>
     complete_multipart_upload_request \<Rightarrow>
     (error + complete_multipart_upload_output) \<times> provider_state" where
  "complete_multipart_upload h st request =
     (case map_of (multiparts (bucket st)) (cmu_upload_id request) of
        None \<Rightarrow> (Inl NoSuchUpload, st)
      | Some s3_multipart \<Rightarrow>
     (if key (mp_object s3_multipart) \<noteq> cmu_key request then (Inl NoSuchUpload, st)
      else case complete_multipart_upload_preconditions (bucket st) s3_multipart request of
        Some e \<Rightarrow> (Inl e, st)
      | None \<Rightarrow>
     (case complete_multipart_upload_parts request of
        Inl e \<Rightarrow> (Inl e, st)
      | Inr parts \<Rightarrow> complete_multipart_upload_finish h st s3_multipart request parts)))"

section \<open>DeleteObject\<close>

record delete_object_request =
  do_key :: string
  do_version_id :: "string option"
  bypass_governance_retention :: "bool option"

record delete_object_output =
  DeletedVersionId :: "string option"
  DeleteMarker :: "bool option"

definition delete_object ::
  "delete_object_request helpers \<Rightarrow> provider_state \<Rightarrow> delete_object_request \<Rightarrow>
     (error + delete_object_output) \<times> provider_state" where
  "delete_object h st request =
     (let k = do_key request; v = do_version_id request; s3_bucket = bucket st in
      if bypass_governance_retention request \<noteq> None \<and> \<not> object_lock_enabled s3_bucket
        then (Inl (InvalidArgument ''x-amz-bypass-governance-retention''), st)
      else if versioning_status s3_bucket = None
        then (if truthy v \<and> v \<noteq> Some ''null''
                then (Inl (InvalidArgument ''versionId''), st)
              else (case ks_pop (objects s3_bucket) k of
                  (found_object, store') \<Rightarrow>
                (let st1 = st\<lparr>bucket := s3_bucket\<lparr>objects := store'\<rparr>\<rparr>;
                     st2 = (case found_object of
                              None \<Rightarrow> st1
                            | Some obj \<Rightarrow>
                                tags_pop (get_unique_key_id h k v)
                                  (log_effect (Notify k) (log_effect (StorageRemove k) st1))) in
                 (Inr \<lparr>DeletedVersionId = None, DeleteMarker = None\<rparr>, st2))))
      else if \<not> truthy v
        then (case generate_version_id (generate_safe_version_id h)
                     (versioning_status s3_bucket) st of
            (delete_marker_id, st1) \<Rightarrow>
              (Inr \<lparr>DeletedVersionId = delete_marker_id, DeleteMarker = Some True\<rparr>,
               log_effect (Notify k) (set_object k (S3DeleteMarker k delete_marker_id) st1)))
      else if \<not> ks_contains (objects s3_bucket) k
        then (Inr \<lparr>DeletedVersionId = None, DeleteMarker = None\<rparr>, st)
      else (case ks_get_version (objects s3_bucket) k (the v) of
          None \<Rightarrow> (Inl (InvalidArgument ''versionId''), st)
        | Some s3_object \<Rightarrow>
            if is_locked h s3_object (bypass_governance_retention request)
              then (Inl AccessDenied, st)
            else
              (let st1 = st\<lparr>bucket := s3_bucket\<lparr>objects :=
                           ks_pop_version (objects s3_bucket) k (the v)\<rparr>\<rparr> in
               case s3_object of
                 S3DeleteMarker _ _ \<Rightarrow>
                   (Inr \<lparr>DeletedVersionId = entry_version_id s3_object, DeleteMarker = Some True\<rparr>,
                    log_effect (Notify k) st1)
               | S3Object _ \<Rightarrow>
                   (Inr \<lparr>DeletedVersionId = entry_version_id s3_object, DeleteMarker = None\<rparr>,
                    log_effect (Notify k)
                      (tags_pop (get_unique_key_id h k v) (log_effect (StorageRemove k) st1))))))"

section \<open>ListObjects and ListObjectsV2\<close>

record list_request =
  Delimiter :: "string option"
  EncodingType :: "string option"
  MaxKeys :: "int option"
  Prefix :: "string option"

record list_objects_request = list_request +
  Marker :: "string option"

record list_objects_v2_request = list_request +
  ContinuationToken :: "string option"
  FetchOwner :: "bool option"
  StartAfter :: "string option"

text \<open>
  The functions of the Python library the listings call: \<^verbatim>\<open>urllib.parse.quote\<close>, and
  \<^verbatim>\<open>base64.urlsafe_b64encode\<close> and \<^verbatim>\<open>urlsafe_b64decode\<close> between strings (the
  decoder raises on a malformed token: \<open>None\<close>).
\<close>

record codecs =
  quote :: "string \<Rightarrow> string"
  urlsafe_b64encode :: "string \<Rightarrow> string"
  urlsafe_b64decode :: "string \<Rightarrow> string option"

text \<open>An entry of \<^verbatim>\<open>Contents\<close> (the fields that come from the object).\<close>

record object_data =
  ObjKey :: string
  ObjETag :: string
  ObjSize :: nat
  ObjLastModified :: int

definition object_data_of :: "string \<Rightarrow> s3_object \<Rightarrow> object_data" where
  "object_data_of k obj =
     \<lparr>ObjKey = k, ObjETag = quoted_etag obj, ObjSize = size_bytes obj,
      ObjLastModified = last_modified obj\<rparr>"

text \<open>
  The local variables of a listing loop. \<^verbatim>\<open>common_prefixes\<close> is a Python set: it is
  kept as the list of its elements in the order they were added, and nothing is added twice.
\<close>

record listing =
  common_prefixes :: "string list"
  count :: int
  is_truncated :: bool
  next_token :: "string option"
  s3_objects :: "object_data list"

definition listing_init :: listing where
  "listing_init = \<lparr>common_prefixes = [], count = 0, is_truncated = False,
                    next_token = None, s3_objects = []\<rparr>"

text \<open>\<^verbatim>\<open>max_keys or 1000\<close>: an absent limit and the limit 0 both give 1000.\<close>

definition max_keys_or_1000 :: "int option \<Rightarrow> int" where
  "max_keys_or_1000 m = (case m of None \<Rightarrow> 1000 | Some n \<Rightarrow> if n = 0 then 1000 else n)"

text \<open>The key as listed: quoted when the request names an encoding type.\<close>

definition listed_key :: "codecs \<Rightarrow> string option \<Rightarrow> s3_object \<Rightarrow> string" where
  "listed_key c encoding_type obj =
     (if truthy encoding_type then quote c (key obj) else key obj)"

text \<open>
  \<^verbatim>\<open>prefix_including_delimiter\<close>: for a key whose part after the prefix contains the
  delimiter, the prefix, what precedes the first delimiter, and the delimiter;
  \<open>None\<close> otherwise. It is never the empty string, so its truth is its presence.
\<close>

definition prefix_including_delimiter :: "string \<Rightarrow> string \<Rightarrow> string \<Rightarrow> string option" where
  "prefix_including_delimiter pfx dlm k =
     (if dlm \<noteq> [] \<and> str_contains dlm (removeprefix pfx k)
        then Some (pfx @ partition_head dlm (removeprefix pfx k) @ dlm)
      else None)"

text \<open>
  The \<^verbatim>\<open>continue\<close>s of the loop of \<open>list_objects_v2\<close> that do not depend on what
  the loop has collected: the key comes before the resume point, or lacks the prefix.
\<close>

definition list_objects_v2_skips ::
  "string option \<Rightarrow> string \<Rightarrow> string option \<Rightarrow> string \<Rightarrow> string \<Rightarrow> bool" where
  "list_objects_v2_skips continuation_token decoded_continuation_token start_after pfx k =
     ((if truthy continuation_token then k < decoded_continuation_token
       else truthy start_after \<and> k \<le> the start_after)
      \<or> (pfx \<noteq> [] \<and> \<not> prefix pfx k))"

fun list_objects_v2_loop ::
  "codecs \<Rightarrow> string option \<Rightarrow> string option \<Rightarrow> string \<Rightarrow> string option \<Rightarrow> string \<Rightarrow> string \<Rightarrow>
     int \<Rightarrow> s3_object list \<Rightarrow> listing \<Rightarrow> listing" where
  "list_objects_v2_loop c enc tok dtok sa pfx dlm max_keys [] st = st"
| "list_objects_v2_loop c enc tok dtok sa pfx dlm max_keys (obj # rest) st =
     (if list_objects_v2_skips tok dtok sa pfx (listed_key c enc obj)
        then list_objects_v2_loop c enc tok dtok sa pfx dlm max_keys rest st
      else if (case prefix_including_delimiter pfx dlm (listed_key c enc obj) of
                 None \<Rightarrow> False | Some p \<Rightarrow> p \<in> set (common_prefixes st))
        then list_objects_v2_loop c enc tok dtok sa pfx dlm max_keys rest st
      else if count st \<ge> max_keys
        then st\<lparr>is_truncated := True, next_token := Some (urlsafe_b64encode c (key obj))\<rparr>
      else list_objects_v2_loop c enc tok dtok sa pfx dlm max_keys rest
        (case prefix_including_delimiter pfx dlm (listed_key c enc obj) of
           Some p \<Rightarrow> st\<lparr>common_prefixes := common_prefixes st @ [p], count := count st + 1\<rparr>
         | None \<Rightarrow> st\<lparr>s3_objects := s3_objects st @ [object_data_of (listed_key c enc obj) obj],
                      count := count st + 1\<rparr>))"

record list_output =
  IsTruncated :: bool
  Contents :: "object_data list"
  CommonPrefixes :: "string list"
  ResponseMaxKeys :: int

record list_objects_output = list_output +
  NextMarker :: "string option"

record list_objects_v2_output = list_output +
  NextContinuationToken :: "string option"
  KeyCount :: int

definition list_objects_v2 ::
  "codecs \<Rightarrow> s3_bucket \<Rightarrow> list_objects_v2_request \<Rightarrow> error + list_objects_v2_output" where
  "list_objects_v2 c s3_bucket request =
     (if ContinuationToken request = Some [] then Inl (InvalidArgument ''continuation-token'')
      else
     (let max_keys = max_keys_or_1000 (MaxKeys request);
          pfx = (if truthy (EncodingType request) then quote c (or_empty (Prefix request))
                 else or_empty (Prefix request));
          dlm = (if truthy (EncodingType request) then quote c (or_empty (Delimiter request))
                 else or_empty (Delimiter request)) in
      case (if truthy (ContinuationToken request)
              then urlsafe_b64decode c (the (ContinuationToken request)) else Some []) of
        None \<Rightarrow> Inl (PythonError ''binascii.Error'')
      | Some dtok \<Rightarrow>
     (let st = list_objects_v2_loop c (EncodingType request) (ContinuationToken request) dtok
                 (StartAfter request) pfx dlm max_keys
                 (sort_key key (ks_values (objects s3_bucket))) listing_init in
      Inr \<lparr>IsTruncated = is_truncated st, Contents = s3_objects st,
           CommonPrefixes = sort (common_prefixes st), ResponseMaxKeys = max_keys,
           NextContinuationToken = (if truthy (next_token st) then next_token st else None),
           KeyCount = count st\<rparr>)))"

text \<open>
  The \<^verbatim>\<open>continue\<close>s of the loop of \<open>list_objects\<close> that do not depend on what the
  loop has collected: the key is not after the marker, or lacks the prefix, or its common
  prefix starts the marker.
\<close>

definition list_objects_skips :: "string option \<Rightarrow> string \<Rightarrow> string \<Rightarrow> string \<Rightarrow> bool" where
  "list_objects_skips marker pfx dlm k =
     ((truthy marker \<and> k \<le> the marker)
      \<or> (pfx \<noteq> [] \<and> \<not> prefix pfx k)
      \<or> (case prefix_including_delimiter pfx dlm k of
            None \<Rightarrow> False
          | Some p \<Rightarrow> truthy marker \<and> prefix p (the marker)))"

text \<open>
  The loop of \<open>list_objects\<close>. \<open>last_key\<close> is the key of the last object of the sorted
  list. \<^verbatim>\<open>next_key_marker\<close> is kept in \<open>next_token\<close>.
\<close>

fun list_objects_loop ::
  "codecs \<Rightarrow> string option \<Rightarrow> string option \<Rightarrow> string \<Rightarrow> string \<Rightarrow> string \<Rightarrow> int \<Rightarrow>
     s3_object list \<Rightarrow> listing \<Rightarrow> listing" where
  "list_objects_loop c enc marker last_key pfx dlm max_keys [] st = st"
| "list_objects_loop c enc marker last_key pfx dlm max_keys (obj # rest) st =
     (if list_objects_skips marker pfx dlm (listed_key c enc obj)
        then list_objects_loop c enc marker last_key pfx dlm max_keys rest st
      else if (case prefix_including_delimiter pfx dlm (listed_key c enc obj) of
                 None \<Rightarrow> False | Some p \<Rightarrow> p \<in> set (common_prefixes st))
        then list_objects_loop c enc marker last_key pfx dlm max_keys rest st
      else
        (let st1 =
           (case prefix_including_delimiter pfx dlm (listed_key c enc obj) of
              Some p \<Rightarrow> st\<lparr>common_prefixes := common_prefixes st @ [p], count := count st + 1\<rparr>
            | None \<Rightarrow> st\<lparr>s3_objects := s3_objects st
                           @ [object_data_of (listed_key c enc obj) obj],
                         count := count st + 1\<rparr>) in
         if count st1 \<ge> max_keys \<and> last_key \<noteq> key obj
           then st1\<lparr>is_truncated := True,
                    next_token :=
                      (case prefix_including_delimiter pfx dlm (listed_key c enc obj) of
                         Some p \<Rightarrow> Some p
                       | None \<Rightarrow> if s3_objects st1 \<noteq> []
                                   then Some (ObjKey (last (s3_objects st1)))
                                 else next_token st1)\<rparr>
         else list_objects_loop c enc marker last_key pfx dlm max_keys rest st1))"

definition list_objects ::
  "codecs \<Rightarrow> s3_bucket \<Rightarrow> list_objects_request \<Rightarrow> list_objects_output" where
  "list_objects c s3_bucket request =
     (let max_keys = max_keys_or_1000 (MaxKeys request);
          pfx = (if truthy (EncodingType request) then quote c (or_empty (Prefix request))
                 else or_empty (Prefix request));
          dlm = (if truthy (EncodingType request) then quote c (or_empty (Delimiter request))
                 else or_empty (Delimiter request));
          all_keys = sort_key key (ks_values (objects s3_bucket));
          st = list_objects_loop c (EncodingType request) (Marker request)
                 (if all_keys = [] then [] else key (last all_keys))
                 pfx dlm max_keys all_keys listing_init in
      \<lparr>IsTruncated = is_truncated st, Contents = s3_objects st,
       CommonPrefixes = sort (common_prefixes st), ResponseMaxKeys = max_keys,
       NextMarker = (if dlm \<noteq> [] \<and> truthy (next_token st) then next_token st else None)\<rparr>)"

section \<open>Where a listing loop stops\<close>

text \<open>
  The loops of the two listings go through the sorted objects and may \<^verbatim>\<open>break\<close>
  before the end. To speak about the objects a page has gone through, the functions below
  follow the branches of the loops and return, instead of the collected page, the objects
  the loop has iterated over without breaking (read) and those it has left (unread). The
  loop of \<open>list_objects_v2\<close> breaks before it handles the object at hand, which is
  then the first one unread; the loop of \<open>list_objects\<close> breaks after it has added the
  object at hand, which is then the last one read.
\<close>

fun list_objects_v2_read ::
  "codecs \<Rightarrow> string option \<Rightarrow> string option \<Rightarrow> string \<Rightarrow> string option \<Rightarrow> string \<Rightarrow> string \<Rightarrow>
     int \<Rightarrow> s3_object list \<Rightarrow> listing \<Rightarrow> s3_object list" where
  "list_objects_v2_read c enc tok dtok sa pfx dlm max_keys [] st = []"
| "list_objects_v2_read c enc tok dtok sa pfx dlm max_keys (obj # rest) st =
     (if list_objects_v2_skips tok dtok sa pfx (listed_key c enc obj)
        then obj # list_objects_v2_read c enc tok dtok sa pfx dlm max_keys rest st
      else if (case prefix_including_delimiter pfx dlm (listed_key c enc obj) of
                 None \<Rightarrow> False | Some p \<Rightarrow> p \<in> set (common_prefixes st))
        then obj # list_objects_v2_read c enc tok dtok sa pfx dlm max_keys rest st
      else if count st \<ge> max_keys then []
      else obj # list_objects_v2_read c enc tok dtok sa pfx dlm max_keys rest
        (case prefix_including_delimiter pfx dlm (listed_key c enc obj) of
           Some p \<Rightarrow> st\<lparr>common_prefixes := common_prefixes st @ [p], count := count st + 1\<rparr>
         | None \<Rightarrow> st\<lparr>s3_objects := s3_objects st @ [object_data_of (listed_key c enc obj) obj],
                      count := count st + 1\<rparr>))"

fun list_objects_v2_unread ::
  "codecs \<Rightarrow> string option \<Rightarrow> string option \<Rightarrow> string \<Rightarrow> string option \<Rightarrow> string \<Rightarrow> string \<Rightarrow>
     int \<Rightarrow> s3_object list \<Rightarrow> listing \<Rightarrow> s3_object list" where
  "list_objects_v2_unread c enc tok dtok sa pfx dlm max_keys [] st = []"
| "list_objects_v2_unread c enc tok dtok sa pfx dlm max_keys (obj # rest) st =
     (if list_objects_v2_skips tok dtok sa pfx (listed_key c enc obj)
        then list_objects_v2_unread c enc tok dtok sa pfx dlm max_keys rest st
      else if (case prefix_including_delimiter pfx dlm (listed_key c enc obj) of
                 None \<Rightarrow> False | Some p \<Rightarrow> p \<in> set (common_prefixes st))
        then list_objects_v2_unread c enc tok dtok sa pfx dlm max_keys rest st
      else if count st \<ge> max_keys then obj # rest
      else list_objects_v2_unread c enc tok dtok sa pfx dlm max_keys rest
        (case prefix_including_delimiter pfx dlm (listed_key c enc obj) of
           Some p \<Rightarrow> st\<lparr>common_prefixes := common_prefixes st @ [p], count := count st + 1\<rparr>
         | None \<Rightarrow> st\<lparr>s3_objects := s3_objects st @ [object_data_of (listed_key c enc obj) obj],
                      count := count st + 1\<rparr>))"

fun list_objects_read ::
  "codecs \<Rightarrow> string option \<Rightarrow> string option \<Rightarrow> string \<Rightarrow> string \<Rightarrow> string \<Rightarrow> int \<Rightarrow>
     s3_object list \<Rightarrow> listing \<Rightarrow> s3_object list" where
  "list_objects_read c enc marker last_key pfx dlm max_keys [] st = []"
| "list_objects_read c enc marker last_key pfx dlm max_keys (obj # rest) st =
     (if list_objects_skips marker pfx dlm (listed_key c enc obj)
        then obj # list_objects_read c enc marker last_key pfx dlm max_keys rest st
      else if (case prefix_including_delimiter pfx dlm (listed_key c enc obj) of
                 None \<Rightarrow> False | Some p \<Rightarrow> p \<in> set (common_prefixes st))
        then obj # list_objects_read c enc marker last_key pfx dlm max_keys rest st
      else
        (let st1 =
           (case prefix_including_delimiter pfx dlm (listed_key c enc obj) of
              Some p \<Rightarrow> st\<lparr>common_prefixes := common_prefixes st @ [p], count := count st + 1\<rparr>
            | None \<Rightarrow> st\<lparr>s3_objects := s3_objects st
                           @ [object_data_of (listed_key c enc obj) obj],
                         count := count st + 1\<rparr>) in
         if count st1 \<ge> max_keys \<and> last_key \<noteq> key obj then [obj]
         else obj # list_objects_read c enc marker last_key pfx dlm max_keys rest st1))"

fun list_objects_unread ::
  "codecs \<Rightarrow> string option \<Rightarrow> string option \<Rightarrow> string \<Rightarrow> string \<Rightarrow> string \<Rightarrow> int \<Rightarrow>
     s3_object list \<Rightarrow> listing \<Rightarrow> s3_object list" where
  "list_objects_unread c enc marker last_key pfx dlm max_keys [] st = []"
| "list_objects_unread c enc marker last_key pfx dlm max_keys (obj # rest) st =
     (if list_objects_skips marker pfx dlm (listed_key c enc obj)
        then list_objects_unread c enc marker last_key pfx dlm max_keys rest st
      else if (case prefix_including_delimiter pfx dlm (listed_key c enc obj) of
                 None \<Rightarrow> False | Some p \<Rightarrow> p \<in> set (common_prefixes st))
        then list_objects_unread c enc marker last_key pfx dlm max_keys rest st
      else
        (let st1 =
           (case prefix_including_delimiter pfx dlm (listed_key c enc obj) of
              Some p \<Rightarrow> st\<lparr>common_prefixes := common_prefixes st @ [p], count := count st + 1\<rparr>
            | None \<Rightarrow> st\<lparr>s3_objects := s3_objects st
                           @ [object_data_of (listed_key c enc obj) obj],
                         count := count st + 1\<rparr>) in
         if count st1 \<ge> max_keys \<and> last_key \<noteq> key obj then rest
         else list_objects_unread c enc marker last_key pfx dlm max_keys rest st1))"

section \<open>Following the pages of a listing\<close>

text \<open>
  The client of a paginated listing: it issues the request again with the token of the
  page it got, until a page comes without one. The number of pages is not known in
  advance, so the loop runs on fuel; \<open>None\<close> is fuel exhausted, or a page that failed.
  For ListObjectsV2 the token is \<^verbatim>\<open>NextContinuationToken\<close>.
\<close>

fun paginate_v2 ::
  "nat \<Rightarrow> codecs \<Rightarrow> s3_bucket \<Rightarrow> list_objects_v2_request \<Rightarrow> list_objects_v2_output list option" where
  "paginate_v2 0 c s3_bucket request = None"
| "paginate_v2 (Suc n) c s3_bucket request =
     (case list_objects_v2 c s3_bucket request of
        Inl e \<Rightarrow> None
      | Inr page \<Rightarrow>
          (case NextContinuationToken page of
             None \<Rightarrow> Some [page]
           | Some t \<Rightarrow>
               map_option ((#) page)
                 (paginate_v2 n c s3_bucket (request\<lparr>ContinuationToken := Some t\<rparr>))))"

text \<open>
  For ListObjects a truncated page is followed from \<^verbatim>\<open>NextMarker\<close> when the page has
  one, and otherwise from the key of its last entry, as the protocol of the service says.
\<close>

definition next_marker :: "list_objects_output \<Rightarrow> string option" where
  "next_marker page =
     (case NextMarker page of
        Some m \<Rightarrow> Some m
      | None \<Rightarrow> if Contents page = [] then None else Some (ObjKey (last (Contents page))))"

fun paginate_v1 ::
  "nat \<Rightarrow> codecs \<Rightarrow> s3_bucket \<Rightarrow> list_objects_request \<Rightarrow> list_objects_output list option" where
  "paginate_v1 0 c s3_bucket request = None"
| "paginate_v1 (Suc n) c s3_bucket request =
     (let page = list_objects c s3_bucket request in
      if \<not> IsTruncated page then Some [page]
      else (case next_marker page of
              None \<Rightarrow> None
            | Some m \<Rightarrow>
                map_option ((#) page)
                  (paginate_v1 n c s3_bucket (request\<lparr>Marker := Some m\<rparr>))))"

text \<open>
  The same client following only what the response returns as \<^verbatim>\<open>NextMarker\<close>: it
  stops at the first page without one.
\<close>

fun paginate_v1_next_marker ::
  "nat \<Rightarrow> codecs \<Rightarrow> s3_bucket \<Rightarrow> list_objects_request \<Rightarrow> list_objects_output list option" where
  "paginate_v1_next_marker 0 c s3_bucket request = None"
| "paginate_v1_next_marker (Suc n) c s3_bucket request =
     (let page = list_objects c s3_bucket request in
      case NextMarker page of
        None \<Rightarrow> Some [page]
      | Some m \<Rightarrow>
          map_option ((#) page)
            (paginate_v1_next_marker n c s3_bucket (request\<lparr>Marker := Some m\<rparr>)))"

text \<open>
  What a complete listing is to give, in the words of the specification: the keys of the
  bucket that match the prefix, in ascending order; those whose part after the prefix
  contains the delimiter are collapsed into their common prefix, the others are listed.
\<close>

definition matching_keys :: "s3_bucket \<Rightarrow> string \<Rightarrow> string list" where
  "matching_keys s3_bucket pfx =
     filter (\<lambda>k. prefix pfx k) (sort (map key (ks_values (objects s3_bucket))))"

definition listed_keys :: "s3_bucket \<Rightarrow> string \<Rightarrow> string \<Rightarrow> string list" where
  "listed_keys s3_bucket pfx dlm =
     filter (\<lambda>k. prefix_including_delimiter pfx dlm k = None) (matching_keys s3_bucket pfx)"

definition listed_common_prefixes :: "s3_bucket \<Rightarrow> string \<Rightarrow> string \<Rightarrow> string set" where
  "listed_common_prefixes s3_bucket pfx dlm =
     {p. \<exists>k \<in> set (matching_keys s3_bucket pfx). prefix_including_delimiter pfx dlm k = Some p}"

section \<open>An environment for examples\<close>

text \<open>
  Helpers under which every validation outside the file passes, the body is not chunked,
  and the backend reports the etag \<open>e1\<close>; identity codecs that mark a token with \<open>t\<close>.
\<close>

definition passing_helpers :: "'r helpers" where
  "passing_helpers =
     \<lparr>STORAGE_CLASSES = [''STANDARD'', ''GLACIER'', ''OUTPOSTS''],
      CHECKSUM_ALGORITHMS = [''CRC32'', ''CRC32C'', ''SHA1'', ''SHA256'', ''CRC64NVME''],
      S3_SKIP_KMS_KEY_VALIDATION = False,
      validate_kms_key_id = (\<lambda>_. None),
      validate_object_key = (\<lambda>_. None),
      get_system_metadata_from_request = (\<lambda>_. None),
      generate_safe_version_id = (\<lambda>n. replicate (Suc n) CHR ''v''),
      base_64_content_md5_to_etag = (\<lambda>s. Some s),
      get_s3_checksum_algorithm_from_request = (\<lambda>_. Inr None),
      request_checksum_value = (\<lambda>_ _. None),
      validate_sse_c = (\<lambda>_. None),
      get_encryption_parameters_from_request_and_bucket = (\<lambda>_. None),
      get_object_lock_parameters_from_bucket_and_request = (\<lambda>_. None),
      get_access_control_policy_for_new_resource_request = (\<lambda>_. None),
      parse_tagging_header = (\<lambda>_. Inr []),
      is_aws_chunked = False,
      get_s3_checksum_algorithm_from_trailing_headers = None,
      decoded_content_length = None,
      storage_open = None,
      storage_write = None,
      stored_etag = ''e1'',
      stored_size = 1,
      stored_checksum = None,
      stored_last_modified = 100,
      validate_checksum_value = (\<lambda>_ _. True),
      etag_to_base_64_content_md5 = (\<lambda>s. s),
      get_unique_key_id = (\<lambda>k v. k @ ''/'' @ (if truthy v then the v else ''null'')),
      is_locked = (\<lambda>_ _. False),
      new_multipart_id = ''u1'',
      supports_mpu_size = True,
      complete_multipart = (\<lambda>m _ _ _. Inr ((mp_object m)\<lparr>etag := ''e2-1''\<rparr>)),
      storage_complete_multipart = None\<rparr>"

definition marking_codecs :: codecs where
  "marking_codecs =
     \<lparr>quote = (\<lambda>s. s),
      urlsafe_b64encode = (\<lambda>s. CHR ''t'' # s),
      urlsafe_b64decode = (\<lambda>s. case s of [] \<Rightarrow> None | c # cs \<Rightarrow> if c = CHR ''t'' then Some cs else None)\<rparr>"

definition example_object :: "string \<Rightarrow> string \<Rightarrow> int \<Rightarrow> s3_object" where
  "example_object k e t =
     \<lparr>key = k, version_id = None, etag = e, size_bytes = 1, last_modified = t,
      checksum_algorithm = None, checksum_value = None, checksum_type = None,
      kms_key_id = None\<rparr>"

definition example_bucket :: "string option \<Rightarrow> s3_object list \<Rightarrow> s3_bucket" where
  "example_bucket status objs =
     \<lparr>versioning_status = status, object_lock_enabled = False,
      objects = map (\<lambda>obj. (key obj, [S3Object obj])) objs, multiparts = []\<rparr>"

definition example_state :: "s3_bucket \<Rightarrow> provider_state" where
  "example_state b = \<lparr>bucket = b, tags = [], ids_generated = 0, effects = []\<rparr>"

definition example_put :: "string option \<Rightarrow> string option \<Rightarrow> put_object_request" where
  "example_put im inm =
     \<lparr>Key = ''k'', StorageClass = None, SSEKMSKeyId = None, Tagging = None,
      SSECustomerKeyMD5 = None, IfMatch = im, IfNoneMatch = inm, ContentMD5 = None\<rparr>"

definition example_multipart :: "bool \<Rightarrow> int \<Rightarrow> s3_multipart" where
  "example_multipart existed t =
     \<lparr>mp_object = example_object ''k'' [] t, initiated = t, precondition = existed,
      mp_checksum_algorithm = None, mp_checksum_type = None, tagging = None\<rparr>"

definition example_upload_state :: "s3_object list \<Rightarrow> s3_multipart \<Rightarrow> provider_state" where
  "example_upload_state objs m =
     example_state ((example_bucket None objs)\<lparr>multiparts := [(''u1'', m)]\<rparr>)"

definition example_complete ::
  "string option \<Rightarrow> string option \<Rightarrow> int list \<Rightarrow> complete_multipart_upload_request" where
  "example_complete im inm numbers =
     \<lparr>cmu_key = ''k'', cmu_upload_id = ''u1'',
      multipart_upload =
        Some \<lparr>Parts = Some (map (\<lambda>n. \<lparr>PartNumber = Some n, PartETag = ''p''\<rparr>) numbers)\<rparr>,
      checksum_crc32 = None, checksum_crc32_c = None, checksum_crc64_nvme = None,
      checksum_sha1 = None, checksum_sha256 = None, cmu_checksum_type = None,
      mpu_object_size = None, if_match = im, if_none_match = inm\<rparr>"

definition example_create :: "string option \<Rightarrow> string option \<Rightarrow> create_multipart_upload_request" where
  "example_create algorithm type =
     \<lparr>Key = ''k'', StorageClass = None, SSEKMSKeyId = None, Tagging = None,
      SSECustomerKeyMD5 = None, ChecksumAlgorithm = algorithm, ChecksumType = type\<rparr>"

definition example_delete :: "string \<Rightarrow> string option \<Rightarrow> delete_object_request" where
  "example_delete k v = \<lparr>do_key = k, do_version_id = v, bypass_governance_retention = None\<rparr>"

definition example_list ::
  "string option \<Rightarrow> string option \<Rightarrow> int option \<Rightarrow> string option \<Rightarrow> list_objects_request" where
  "example_list pfx dlm n m =
     \<lparr>Delimiter = dlm, EncodingType = None, MaxKeys = n, Prefix = pfx, Marker = m\<rparr>"

definition example_list_v2 ::
  "string option \<Rightarrow> string option \<Rightarrow> int option \<Rightarrow> string option \<Rightarrow> list_objects_v2_request" where
  "example_list_v2 pfx dlm n tok =
     \<lparr>Delimiter = dlm, EncodingType = None, MaxKeys = n, Prefix = pfx,
      ContinuationToken = tok, FetchOwner = None, StartAfter = None\<rparr>"

section \<open>Facts about the key store and the examples\<close>

lemma ks_versions_ks_put: "ks_versions (ks_put store k vs) k = vs"
proof (cases "k \<in> fst ` set store")
  case True
  then have "map_of (map (\<lambda>(k', vs'). if k' = k then (k', vs) else (k', vs')) store) k = Some vs"
  proof (induction store)
    case Nil
    then show ?case by simp
  next
    case (Cons p store)
    show ?case
    proof (cases "fst p = k")
      case True
      then show ?thesis by (simp add: case_prod_beta)
    next
      case False
      with Cons.prems have "k \<in> fst ` set store" by auto
      with Cons.IH False show ?thesis by (simp add: case_prod_beta)
    qed
  qed
  with True show ?thesis by (simp add: ks_versions_def ks_put_def)
next
  case False
  then have "map_of store k = None" by (simp add: map_of_eq_None_iff)
  with False show ?thesis by (simp add: ks_versions_def ks_put_def map_add_def)
qed

lemma ks_get_ks_set: "ks_get (ks_set store k e) k = Some e"
  by (simp add: ks_get_def ks_set_def ks_versions_ks_put split: option.splits)

lemma generate_version_id_cases:
  "generate_version_id gen None st = (None, st)"
  "generate_version_id gen (Some ''Suspended'') st = (Some ''null'', st)"
  "generate_version_id gen (Some ''Enabled'') st =
     (Some (gen (ids_generated st)), st\<lparr>ids_generated := Suc (ids_generated st)\<rparr>)"
  by (simp_all add: generate_version_id_def truthy_def lower_def lower_char_def)

lemma put_object_store_Inr:
  assumes "put_object_store h request version a oa v st0 = (Inr obj, st2)"
  shows "version_id obj = version \<and> key obj = Key request \<and>
         ks_get (objects (bucket st2)) (Key request) = Some (S3Object obj) \<and>
         versioning_status (bucket st2) = versioning_status (bucket st0) \<and>
         ids_generated st2 = ids_generated st0"
  using assms
  by (auto simp: put_object_store_def Let_def log_effect_def set_object_def ks_get_ks_set
      split: option.splits if_splits)

lemma put_object_finish_props:
  assumes "put_object_finish h t obj st = (response, st')"
  shows "bucket st' = bucket st \<and> ids_generated st' = ids_generated st \<and>
         VersionId response = (if versioning_status (bucket st) = Some ''Enabled''
                               then version_id obj else None)"
  using assms
  by (auto simp: put_object_finish_def Let_def log_effect_def tags_pop_def tags_set_def
      split: option.splits if_splits)

lemmas example_defs = passing_helpers_def example_put_def example_multipart_def
  example_upload_state_def example_complete_def example_state_def example_bucket_def
  example_object_def example_create_def example_delete_def example_list_def
  example_list_v2_def marking_codecs_def

lemmas put_object_defs = put_object_def put_object_validate_def
      put_object_conditional_headers_def generate_version_id_def put_object_prepare_def
      put_object_chunked_def put_object_store_def put_object_body_checks_def
      put_object_finish_def object_exists_for_precondition_write_def
      verify_object_equality_precondition_write_def
      log_effect_def set_object_def tags_pop_def tags_set_def quoted_etag_def
      truthy_def Let_def lower_def lower_char_def ks_get_def ks_versions_def

section \<open>Conditional headers that are not implemented\<close>

text \<open>
  Claim C6, as stated: PutObject and CompleteMultipartUpload reject with NotImplemented a
  request that carries both If-Match and If-None-Match, or an If-None-Match other than
  \<^verbatim>\<open>*\<close>, or an If-Match equal to \<^verbatim>\<open>*\<close>. The provider tests the headers by
  truthiness, so an empty If-None-Match counts as absent: the request below carries the
  empty string, which is not \<^verbatim>\<open>*\<close>, and is written.
\<close>

theorem empty_if_none_match_counterexample:
  "IfNoneMatch (example_put None (Some [])) \<noteq> Some ''*'' \<and>
   fst (put_object passing_helpers (example_state (example_bucket None []))
          (example_put None (Some []))) =
     Inr \<lparr>ETag = CHR 0x22 # ''e1'' @ [CHR 0x22], VersionId = None,
          PutChecksumAlgorithm = None, PutChecksumValue = None\<rparr>"
  by (simp add: example_defs put_object_def put_object_validate_def
      put_object_conditional_headers_def generate_version_id_def put_object_prepare_def
      put_object_chunked_def put_object_store_def put_object_body_checks_def
      put_object_finish_def object_exists_for_precondition_write_def
      log_effect_def set_object_def tags_pop_def tags_set_def quoted_etag_def
      truthy_def Let_def)

text \<open>
  Claim C6, amended: a PutObject request that passes the checks of its storage class, KMS
  key id and object key, and a CompleteMultipartUpload request for an existing upload, are
  rejected with NotImplemented when both headers are non-empty, or If-None-Match is
  non-empty and not \<^verbatim>\<open>*\<close>, or If-Match is \<^verbatim>\<open>*\<close>. The state is returned as it
  was: nothing has been written.
\<close>

theorem conditional_headers_not_implemented:
  assumes "put_object_validate h request = None"
    and "(truthy (IfMatch request) \<and> truthy (IfNoneMatch request)) \<or>
         (truthy (IfNoneMatch request) \<and> IfNoneMatch request \<noteq> Some ''*'') \<or>
         IfMatch request = Some ''*''"
    and "map_of (multiparts (bucket st')) (cmu_upload_id crequest) = Some s3_multipart"
    and "key (mp_object s3_multipart) = cmu_key crequest"
    and "(truthy (if_match crequest) \<and> truthy (if_none_match crequest)) \<or>
         (truthy (if_none_match crequest) \<and> if_none_match crequest \<noteq> Some ''*'') \<or>
         if_match crequest = Some ''*''"
  shows "(\<exists>header. put_object h st request = (Inl (NotImplementedException header), st)) \<and>
         (\<exists>header. complete_multipart_upload h' st' crequest =
                     (Inl (NotImplementedException header), st'))"
proof
  have "\<exists>header. put_object_conditional_headers request = Some (NotImplementedException header)"
    using assms(2) by (auto simp: put_object_conditional_headers_def Let_def truthy_def)
  then show "\<exists>header. put_object h st request = (Inl (NotImplementedException header), st)"
    using assms(1) by (auto simp: put_object_def)
next
  have "\<exists>header. complete_multipart_upload_preconditions (bucket st') s3_multipart crequest
          = Some (NotImplementedException header)"
    using assms(5) by (auto simp: complete_multipart_upload_preconditions_def Let_def truthy_def)
  then show "\<exists>header. complete_multipart_upload h' st' crequest =
                     (Inl (NotImplementedException header), st')"
    using assms(3,4) by (auto simp: complete_multipart_upload_def Let_def)
qed

theorem conditional_headers_not_implemented_witness:
  "put_object_validate passing_helpers (example_put None (Some ''abc'')) = None \<and>
   IfNoneMatch (example_put None (Some ''abc'')) = Some ''abc'' \<and>
   map_of (multiparts (bucket (example_upload_state [] (example_multipart False 5))))
      (cmu_upload_id (example_complete (Some ''*'') None [1]))
     = Some (example_multipart False 5) \<and>
   if_match (example_complete (Some ''*'') None [1]) = Some ''*'' \<and>
   (\<exists>header. put_object passing_helpers (example_state (example_bucket None []))
        (example_put None (Some ''abc'')) =
      (Inl (NotImplementedException header), example_state (example_bucket None []))) \<and>
   (\<exists>header. complete_multipart_upload passing_helpers
        (example_upload_state [] (example_multipart False 5))
        (example_complete (Some ''*'') None [1]) =
      (Inl (NotImplementedException header),
       example_upload_state [] (example_multipart False 5)))"
proof -
  have h1: "put_object_validate passing_helpers (example_put None (Some ''abc'')) = None"
    by (simp add: put_object_validate_def example_defs truthy_def)
  have g2: "IfNoneMatch (example_put None (Some ''abc'')) = Some ''abc''"
    by (simp add: example_defs)
  have h2: "(truthy (IfMatch (example_put None (Some ''abc''))) \<and>
             truthy (IfNoneMatch (example_put None (Some ''abc'')))) \<or>
            (truthy (IfNoneMatch (example_put None (Some ''abc''))) \<and>
             IfNoneMatch (example_put None (Some ''abc'')) \<noteq> Some ''*'') \<or>
            IfMatch (example_put None (Some ''abc'')) = Some ''*''"
    by (simp add: g2 truthy_def)
  have h3: "map_of (multiparts (bucket (example_upload_state [] (example_multipart False 5))))
              (cmu_upload_id (example_complete (Some ''*'') None [1]))
            = Some (example_multipart False 5)"
    by (simp add: example_defs)
  have h4: "key (mp_object (example_multipart False 5))
            = cmu_key (example_complete (Some ''*'') None [1])"
    by (simp add: example_defs)
  have g5: "if_match (example_complete (Some ''*'') None [1]) = Some ''*''"
    by (simp add: example_defs)
  have h5: "(truthy (if_match (example_complete (Some ''*'') None [1])) \<and>
             truthy (if_none_match (example_complete (Some ''*'') None [1]))) \<or>
            (truthy (if_none_match (example_complete (Some ''*'') None [1])) \<and>
             if_none_match (example_complete (Some ''*'') None [1]) \<noteq> Some ''*'') \<or>
            if_match (example_complete (Some ''*'') None [1]) = Some ''*''"
    by (simp add: g5)
  note c = conditional_headers_not_implemented [OF h1 h2 h3 h4 h5,
      of "example_state (example_bucket None [])" passing_helpers]
  show ?thesis using h1 g2 h3 g5 c by simp
qed

section \<open>Version ids of PutObject\<close>

text \<open>
  Claim C8: after a successful PutObject the current version of the key is the object of
  the request. Its version id is absent when the versioning status of the bucket is unset
  (and the response has no VersionId), the string \<^verbatim>\<open>null\<close> when it is Suspended, and
  when it is Enabled the token that \<^verbatim>\<open>generate_safe_version_id\<close> gave at this call,
  which the response returns; the call is counted, so the next write draws the next token.
\<close>

theorem put_object_version_id:
  assumes "put_object h st request = (Inr response, st')"
  shows "\<exists>obj. ks_get (objects (bucket st')) (Key request) = Some (S3Object obj) \<and>
     (versioning_status (bucket st) = None \<longrightarrow>
        version_id obj = None \<and> VersionId response = None) \<and>
     (versioning_status (bucket st) = Some ''Suspended'' \<longrightarrow>
        version_id obj = Some ''null'') \<and>
     (versioning_status (bucket st) = Some ''Enabled'' \<longrightarrow>
        version_id obj = Some (generate_safe_version_id h (ids_generated st)) \<and>
        VersionId response = version_id obj \<and>
        ids_generated st' = Suc (ids_generated st))"
proof -
  obtain version st1 where g: "generate_version_id (generate_safe_version_id h)
      (versioning_status (bucket st)) st = (version, st1)"
    by (cases "generate_version_id (generate_safe_version_id h) (versioning_status (bucket st)) st")
  have b1: "bucket st1 = bucket st"
    using g by (auto simp: generate_version_id_def split: if_splits)
  from assms g obtain a oa v t obj st2 where
    store: "put_object_store h request version a oa v st1 = (Inr obj, st2)" and
    fin: "put_object_finish h t obj st2 = (response, st')"
    by (auto simp: put_object_def split: option.splits sum.splits prod.splits)
  note s = put_object_store_Inr [OF store]
  note f = put_object_finish_props [OF fin]
  have c1: "ks_get (objects (bucket st')) (Key request) = Some (S3Object obj)"
    using s f by simp
  have c2: "versioning_status (bucket st) = None \<longrightarrow>
        version_id obj = None \<and> VersionId response = None"
    using s f g b1 by (auto simp: generate_version_id_cases)
  have c3: "versioning_status (bucket st) = Some ''Suspended'' \<longrightarrow>
        version_id obj = Some ''null''"
    using s f g b1 by (auto simp: generate_version_id_cases)
  have c4: "versioning_status (bucket st) = Some ''Enabled'' \<longrightarrow>
        version_id obj = Some (generate_safe_version_id h (ids_generated st)) \<and>
        VersionId response = version_id obj \<and>
        ids_generated st' = Suc (ids_generated st)"
    using s f g b1 by (auto simp: generate_version_id_cases)
  show ?thesis by (rule exI [of _ obj]) (intro conjI c1 c2 c3 c4)
qed

theorem put_object_version_id_witness:
  "fst (put_object passing_helpers (example_state (example_bucket None [])) (example_put None None))
     = Inr \<lparr>ETag = CHR 0x22 # ''e1'' @ [CHR 0x22], VersionId = None,
            PutChecksumAlgorithm = None, PutChecksumValue = None\<rparr> \<and>
   fst (put_object passing_helpers (example_state (example_bucket (Some ''Suspended'') []))
          (example_put None None))
     = Inr \<lparr>ETag = CHR 0x22 # ''e1'' @ [CHR 0x22], VersionId = None,
            PutChecksumAlgorithm = None, PutChecksumValue = None\<rparr> \<and>
   fst (put_object passing_helpers (example_state (example_bucket (Some ''Enabled'') []))
          (example_put None None))
     = Inr \<lparr>ETag = CHR 0x22 # ''e1'' @ [CHR 0x22], VersionId = Some ''v'',
            PutChecksumAlgorithm = None, PutChecksumValue = None\<rparr> \<and>
   (\<exists>obj. ks_get (objects (bucket (snd (put_object passing_helpers
              (example_state (example_bucket None [])) (example_put None None))))) ''k''
           = Some (S3Object obj) \<and> version_id obj = None) \<and>
   (\<exists>obj. ks_get (objects (bucket (snd (put_object passing_helpers
              (example_state (example_bucket (Some ''Suspended'') [])) (example_put None None))))) ''k''
           = Some (S3Object obj) \<and> version_id obj = Some ''null'') \<and>
   (\<exists>obj. ks_get (objects (bucket (snd (put_object passing_helpers
              (example_state (example_bucket (Some ''Enabled'') [])) (example_put None None))))) ''k''
           = Some (S3Object obj) \<and> version_id obj = Some ''v'') \<and>
   ids_generated (snd (put_object passing_helpers
      (example_state (example_bucket (Some ''Enabled'') [])) (example_put None None))) = 1"
proof -
  let ?r = "\<lambda>status. put_object passing_helpers (example_state (example_bucket status []))
              (example_put None None)"
  have f1: "fst (?r None) = Inr \<lparr>ETag = CHR 0x22 # ''e1'' @ [CHR 0x22], VersionId = None,
            PutChecksumAlgorithm = None, PutChecksumValue = None\<rparr>"
    by (simp add: example_defs put_object_defs)
  have f2: "fst (?r (Some ''Suspended'')) =
        Inr \<lparr>ETag = CHR 0x22 # ''e1'' @ [CHR 0x22], VersionId = None,
            PutChecksumAlgorithm = None, PutChecksumValue = None\<rparr>"
    by (simp add: example_defs put_object_defs)
  have f3: "fst (?r (Some ''Enabled'')) =
        Inr \<lparr>ETag = CHR 0x22 # ''e1'' @ [CHR 0x22], VersionId = Some ''v'',
            PutChecksumAlgorithm = None, PutChecksumValue = None\<rparr>"
    by (simp add: example_defs put_object_defs)
  have k: "Key (example_put None None) = ''k''"
    by (simp add: example_put_def)
  have s: "\<And>status. versioning_status (bucket (example_state (example_bucket status []))) = status"
    "\<And>status. ids_generated (example_state (example_bucket status [])) = 0"
    by (simp_all add: example_state_def example_bucket_def)
  have g: "generate_safe_version_id (passing_helpers :: put_object_request helpers) 0 = ''v''"
    by (simp add: passing_helpers_def)
  note c1 = put_object_version_id [of passing_helpers "example_state (example_bucket None [])"
      "example_put None None" _ "snd (?r None)", unfolded k s g]
  note c2 = put_object_version_id [of passing_helpers
      "example_state (example_bucket (Some ''Suspended'') [])"
      "example_put None None" _ "snd (?r (Some ''Suspended''))", unfolded k s g]
  note c3 = put_object_version_id [of passing_helpers
      "example_state (example_bucket (Some ''Enabled'') [])"
      "example_put None None" _ "snd (?r (Some ''Enabled''))", unfolded k s g]
  have e1: "\<exists>obj. ks_get (objects (bucket (snd (?r None)))) ''k''
           = Some (S3Object obj) \<and> version_id obj = None"
    using c1 f1 by (auto simp: prod_eq_iff)
  have e2: "\<exists>obj. ks_get (objects (bucket (snd (?r (Some ''Suspended''))))) ''k''
           = Some (S3Object obj) \<and> version_id obj = Some ''null''"
    using c2 f2 by (auto simp: prod_eq_iff)
  have e3: "(\<exists>obj. ks_get (objects (bucket (snd (?r (Some ''Enabled''))))) ''k''
           = Some (S3Object obj) \<and> version_id obj = Some ''v'') \<and>
        ids_generated (snd (?r (Some ''Enabled''))) = 1"
    using c3 f3 by (auto simp: prod_eq_iff)
  show ?thesis using f1 f2 f3 e1 e2 e3 by simp
qed

section \<open>Facts about the conditional writes\<close>

lemma bucket_generate_version_id:
  "bucket (snd (generate_version_id gen status st)) = bucket st"
  by (simp add: generate_version_id_def)

lemma put_object_reaches_store:
  assumes "put_object_validate h request = None"
    and "put_object_conditional_headers request = None"
    and "get_system_metadata_from_request h request = None"
    and "put_object_prepare h request = Inr (a0, v, t)"
    and "put_object_chunked h a0 = Inr (a, oa)"
  shows "put_object h st request =
     (case put_object_store h request
             (fst (generate_version_id (generate_safe_version_id h)
                     (versioning_status (bucket st)) st)) a oa v
             (snd (generate_version_id (generate_safe_version_id h)
                     (versioning_status (bucket st)) st)) of
        (Inl e, st2) \<Rightarrow> (Inl e, st2)
      | (Inr s3_object, st2) \<Rightarrow>
          (Inr (fst (put_object_finish h t s3_object st2)),
           snd (put_object_finish h t s3_object st2)))"
  using assms by (simp add: put_object_def split: prod.splits sum.splits)





lemma complete_multipart_upload_found:
  assumes "map_of (multiparts (bucket st)) (cmu_upload_id request) = Some s3_multipart"
    and "key (mp_object s3_multipart) = cmu_key request"
    and "complete_multipart_upload_preconditions (bucket st) s3_multipart request = Some e"
  shows "complete_multipart_upload h st request = (Inl e, st)"
  using assms by (simp add: complete_multipart_upload_def Let_def)


lemma verify_no_object:
  assumes "\<not> object_exists_for_precondition_write s3_bucket k"
  shows "verify_object_equality_precondition_write s3_bucket k e t = Some (NoSuchKey k)"
  using assms
  by (simp add: object_exists_for_precondition_write_def
      verify_object_equality_precondition_write_def split: option.splits s3_entry.splits)

lemma verify_object:
  assumes "ks_get (objects s3_bucket) k = Some (S3Object existing)"
  shows "verify_object_equality_precondition_write s3_bucket k e t =
     (if etag existing \<noteq> strip (CHR 0x22) e then Some (PreconditionFailed ''If-Match'')
      else case t of None \<Rightarrow> None
        | Some i \<Rightarrow> if i < last_modified existing
            then Some (ConditionalRequestConflict ''If-Match'') else None)"
  using assms by (simp add: verify_object_equality_precondition_write_def)

lemma put_object_store_if_match:
  assumes "truthy (IfMatch request)" and "\<not> truthy (IfNoneMatch request)"
    and "storage_open h = None"
    and "verify_object_equality_precondition_write (bucket st1) (Key request)
           (the (IfMatch request)) None = Some e"
  shows "put_object_store h request version a oa v st1 =
     (Inl e, log_effect (StorageOpen (Key request)) st1)"
  using assms by (simp add: put_object_store_def Let_def log_effect_def)

lemma conditional_headers_if_match:
  assumes "put_object_conditional_headers request = None" and "truthy (IfMatch request)"
  shows "\<not> truthy (IfNoneMatch request)"
  using assms by (auto simp: put_object_conditional_headers_def Let_def split: if_splits)


lemma example_put_hyps:
  "put_object_validate passing_helpers (example_put im inm) = None"
  "get_system_metadata_from_request passing_helpers (example_put im inm) = None"
  "put_object_prepare passing_helpers (example_put im inm) = Inr (None, None, None)"
  "put_object_chunked passing_helpers None = Inr (None, None)"
  "storage_open (passing_helpers :: put_object_request helpers) = None"
  "storage_write (passing_helpers :: put_object_request helpers) = None"
  "put_object_body_checks passing_helpers (example_put im inm) None None None = None"
  "Key (example_put im inm) = ''k''"
  "IfMatch (example_put im inm) = im"
  "IfNoneMatch (example_put im inm) = inm"
  by (simp_all add: example_defs put_object_validate_def put_object_prepare_def
      put_object_chunked_def put_object_body_checks_def truthy_def)

lemma example_complete_hyps:
  "map_of (multiparts (bucket (example_upload_state objs m))) (cmu_upload_id (example_complete im inm ns))
     = Some m"
  "key (mp_object (example_multipart ex t)) = cmu_key (example_complete im inm ns)"
  "cmu_key (example_complete im inm ns) = ''k''"
  "if_match (example_complete im inm ns) = im"
  "if_none_match (example_complete im inm ns) = inm"
  "precondition (example_multipart ex t) = ex"
  "initiated (example_multipart ex t) = t"
  by (simp_all add: example_defs)

lemma example_exists:
  "\<not> object_exists_for_precondition_write (bucket (example_state (example_bucket status []))) k"
  "\<not> object_exists_for_precondition_write (bucket (example_upload_state [] m)) k"
  "object_exists_for_precondition_write
     (bucket (example_state (example_bucket status [example_object k e t]))) k"
  "object_exists_for_precondition_write
     (bucket (example_upload_state [example_object k e t] m)) k"
  by (simp_all add: object_exists_for_precondition_write_def ks_get_def ks_versions_def
      example_state_def example_bucket_def example_upload_state_def example_object_def)

lemma example_get:
  "ks_get (objects (bucket (example_state (example_bucket status [example_object k e t])))) k
     = Some (S3Object (example_object k e t))"
  "ks_get (objects (bucket (example_upload_state [example_object k e t] m))) k
     = Some (S3Object (example_object k e t))"
  by (simp_all add: ks_get_def ks_versions_def example_state_def example_bucket_def
      example_upload_state_def example_object_def)

lemma example_object_fields:
  "key (example_object k e t) = k"
  "etag (example_object k e t) = e"
  "last_modified (example_object k e t) = t"
  by (simp_all add: example_object_def)

section \<open>If-None-Match on a write\<close>




section \<open>If-Match on a write\<close>

text \<open>
  Claim C2: for a write with an etag in If-Match that passes the checks placed before the
  condition (PutObject: the head checks and the helpers up to the opening of the storage;
  CompleteMultipartUpload: the upload exists, If-Match is not \<^verbatim>\<open>*\<close>, no If-None-Match).
  If no live object that is not a delete marker exists for the key the operation fails with
  NoSuchKey; if the etag of the current object differs from the header stripped of its
  quotes it fails with PreconditionFailed; and CompleteMultipartUpload fails with
  ConditionalRequestConflict when the etag matches and the current object was last modified
  after the upload was initiated.
\<close>

theorem if_match_etag:
  assumes "truthy (IfMatch request)"
    and "put_object_validate h request = None"
    and "put_object_conditional_headers request = None"
    and "get_system_metadata_from_request h request = None"
    and "put_object_prepare h request = Inr (a0, v, t)"
    and "put_object_chunked h a0 = Inr (a, oa)"
    and "storage_open h = None"
    and "map_of (multiparts (bucket st')) (cmu_upload_id crequest) = Some s3_multipart"
    and "key (mp_object s3_multipart) = cmu_key crequest"
    and "truthy (if_match crequest)"
    and "if_match crequest \<noteq> Some ''*''"
    and "\<not> truthy (if_none_match crequest)"
  shows "(\<not> object_exists_for_precondition_write (bucket st) (Key request) \<longrightarrow>
            fst (put_object h st request) = Inl (NoSuchKey (Key request))) \<and>
         (ks_get (objects (bucket st)) (Key request) = Some (S3Object existing) \<and>
          etag existing \<noteq> strip (CHR 0x22) (the (IfMatch request)) \<longrightarrow>
            fst (put_object h st request) = Inl (PreconditionFailed ''If-Match'')) \<and>
         (\<not> object_exists_for_precondition_write (bucket st') (cmu_key crequest) \<longrightarrow>
            complete_multipart_upload h' st' crequest =
              (Inl (NoSuchKey (cmu_key crequest)), st')) \<and>
         (ks_get (objects (bucket st')) (cmu_key crequest) = Some (S3Object existing') \<and>
          etag existing' \<noteq> strip (CHR 0x22) (the (if_match crequest)) \<longrightarrow>
            complete_multipart_upload h' st' crequest =
              (Inl (PreconditionFailed ''If-Match''), st')) \<and>
         (ks_get (objects (bucket st')) (cmu_key crequest) = Some (S3Object existing') \<and>
          etag existing' = strip (CHR 0x22) (the (if_match crequest)) \<and>
          initiated s3_multipart < last_modified existing' \<longrightarrow>
            complete_multipart_upload h' st' crequest =
              (Inl (ConditionalRequestConflict ''If-Match''), st'))"
proof -
  let ?g = "generate_version_id (generate_safe_version_id h) (versioning_status (bucket st)) st"
  note r = put_object_reaches_store [OF assms(2-6), of st]
  have ninm: "\<not> truthy (IfNoneMatch request)"
    by (rule conditional_headers_if_match [OF assms(3) assms(1)])
  have b: "bucket (snd ?g) = bucket st" by (rule bucket_generate_version_id)
  have p1: "\<not> object_exists_for_precondition_write (bucket st) (Key request) \<Longrightarrow>
            fst (put_object h st request) = Inl (NoSuchKey (Key request))"
    using put_object_store_if_match [OF assms(1) ninm assms(7), of "snd ?g"
        "NoSuchKey (Key request)" "fst ?g" a oa v]
    by (simp add: r b verify_no_object)
  have p2: "ks_get (objects (bucket st)) (Key request) = Some (S3Object existing) \<Longrightarrow>
          etag existing \<noteq> strip (CHR 0x22) (the (IfMatch request)) \<Longrightarrow>
            fst (put_object h st request) = Inl (PreconditionFailed ''If-Match'')"
    using put_object_store_if_match [OF assms(1) ninm assms(7), of "snd ?g"
        "PreconditionFailed ''If-Match''" "fst ?g" a oa v]
    by (simp add: r b verify_object)
  have pre: "complete_multipart_upload_preconditions (bucket st') s3_multipart crequest =
     verify_object_equality_precondition_write (bucket st') (cmu_key crequest)
       (the (if_match crequest)) (Some (initiated s3_multipart))"
    using assms(10-12) by (simp add: complete_multipart_upload_preconditions_def Let_def)
  have c1: "\<not> object_exists_for_precondition_write (bucket st') (cmu_key crequest) \<Longrightarrow>
            complete_multipart_upload h' st' crequest =
              (Inl (NoSuchKey (cmu_key crequest)), st')"
    by (rule complete_multipart_upload_found [OF assms(8,9)]) (simp add: pre verify_no_object)
  have c2: "ks_get (objects (bucket st')) (cmu_key crequest) = Some (S3Object existing') \<Longrightarrow>
          etag existing' \<noteq> strip (CHR 0x22) (the (if_match crequest)) \<Longrightarrow>
            complete_multipart_upload h' st' crequest =
              (Inl (PreconditionFailed ''If-Match''), st')"
    by (rule complete_multipart_upload_found [OF assms(8,9)]) (simp add: pre verify_object)
  have c3: "ks_get (objects (bucket st')) (cmu_key crequest) = Some (S3Object existing') \<Longrightarrow>
          etag existing' = strip (CHR 0x22) (the (if_match crequest)) \<Longrightarrow>
          initiated s3_multipart < last_modified existing' \<Longrightarrow>
            complete_multipart_upload h' st' crequest =
              (Inl (ConditionalRequestConflict ''If-Match''), st')"
    by (rule complete_multipart_upload_found [OF assms(8,9)]) (simp add: pre verify_object)
  show ?thesis using p1 p2 c1 c2 c3 by blast
qed

theorem if_match_etag_witness:
  "fst (put_object passing_helpers (example_state (example_bucket None []))
         (example_put (Some ''e9'') None)) = Inl (NoSuchKey ''k'') \<and>
   complete_multipart_upload passing_helpers
       (example_upload_state [example_object ''k'' ''e0'' 7] (example_multipart False 5))
       (example_complete (Some ''e0'') None [1]) =
     (Inl (ConditionalRequestConflict ''If-Match''),
      example_upload_state [example_object ''k'' ''e0'' 7] (example_multipart False 5)) \<and>
   fst (put_object passing_helpers (example_state (example_bucket None [example_object ''k'' ''e0'' 7]))
         (example_put (Some ''e9'') None)) = Inl (PreconditionFailed ''If-Match'') \<and>
   complete_multipart_upload passing_helpers
       (example_upload_state [example_object ''k'' ''e0'' 7] (example_multipart False 5))
       (example_complete (Some ''e9'') None [1]) =
     (Inl (PreconditionFailed ''If-Match''),
      example_upload_state [example_object ''k'' ''e0'' 7] (example_multipart False 5)) \<and>
   complete_multipart_upload passing_helpers
       (example_upload_state [] (example_multipart False 5))
       (example_complete (Some ''e9'') None [1]) =
     (Inl (NoSuchKey ''k''), example_upload_state [] (example_multipart False 5))"
proof -
  let ?rq = "example_put (Some ''e9'') None"
  let ?h = "passing_helpers :: put_object_request helpers"
  have h1: "truthy (IfMatch ?rq)" by (simp add: example_put_hyps truthy_def)
  have h3: "put_object_conditional_headers ?rq = None"
    by (simp add: truthy_def put_object_conditional_headers_def example_put_def)
  have h5: "put_object_prepare ?h ?rq = Inr (None, None, None)" by (rule example_put_hyps)
  let ?o = "example_object ''k'' ''e0'' 7"
  let ?m = "example_multipart False 5"
  have h8a: "map_of (multiparts (bucket (example_upload_state [?o] ?m)))
      (cmu_upload_id (example_complete (Some ''e0'') None [1])) = Some ?m"
    by (rule example_complete_hyps)
  have h8b: "map_of (multiparts (bucket (example_upload_state [?o] ?m)))
      (cmu_upload_id (example_complete (Some ''e9'') None [1])) = Some ?m"
    by (rule example_complete_hyps)
  have h8c: "map_of (multiparts (bucket (example_upload_state [] ?m)))
      (cmu_upload_id (example_complete (Some ''e9'') None [1])) = Some ?m"
    by (rule example_complete_hyps)
  have h9: "\<And>e. key (mp_object ?m) = cmu_key (example_complete (Some e) None [1])"
    by (rule example_complete_hyps)
  have h10: "truthy (if_match (example_complete (Some ''e0'') None [1]))"
    "truthy (if_match (example_complete (Some ''e9'') None [1]))"
    by (simp_all add: example_complete_hyps truthy_def)
  have h11: "if_match (example_complete (Some ''e0'') None [1]) \<noteq> Some ''*''"
    "if_match (example_complete (Some ''e9'') None [1]) \<noteq> Some ''*''"
    by (simp_all add: example_complete_hyps)
  have h12: "\<And>e. \<not> truthy (if_none_match (example_complete (Some e) None [1]))"
    by (simp add: example_complete_hyps truthy_def)
  have s: "strip (CHR 0x22) ''e9'' = ''e9''" "strip (CHR 0x22) ''e0'' = ''e0''"
    by (simp_all add: strip_def)
  note hs = h1 example_put_hyps(1) h3 example_put_hyps(2) h5 example_put_hyps(4,5)
  note c1 = if_match_etag [OF hs h8a h9 h10(1) h11(1) h12,
      where st = "example_state (example_bucket None [])"
        and h' = passing_helpers
        and existing' = "example_object ''k'' ''e0'' 7"]
  note c2 = if_match_etag [OF hs h8b h9 h10(2) h11(2) h12,
      where st = "example_state (example_bucket None [example_object ''k'' ''e0'' 7])"
        and h' = passing_helpers
        and existing = "example_object ''k'' ''e0'' 7"
        and existing' = "example_object ''k'' ''e0'' 7"]
  note c3 = if_match_etag [OF hs h8c h9 h10(2) h11(2) h12,
      where st = "example_state (example_bucket None [])"
        and h' = passing_helpers]
  show ?thesis using c1 c2 c3
    by (simp add: example_complete_hyps example_put_hyps example_exists example_get
        example_object_fields s)
qed

section \<open>The order of the parts of CompleteMultipartUpload\<close>






section \<open>A listing with max_keys = 0\<close>





section \<open>The checksum type of a new multipart upload\<close>

lemma map_of_registered:
  "map_of (filter (\<lambda>(i, m). i \<noteq> u) ms @ [(u, x)]) u = Some x"
  by (induction ms) (auto simp: map_add_def split: option.splits)

lemma create_multipart_upload_checksum_default:
  assumes "\<not> truthy given_type" and "truthy algorithm"
    and "the algorithm \<in> set (CHECKSUM_ALGORITHMS h)"
  shows "create_multipart_upload_checksum h algorithm given_type =
     Inr (Some (if algorithm = Some ''CRC64NVME'' then ''FULL_OBJECT'' else ''COMPOSITE''))"
  using assms by (simp add: create_multipart_upload_checksum_def)

lemma create_multipart_upload_checksum_rejects:
  "create_multipart_upload_checksum h (Some ''CRC64NVME'') (Some ''COMPOSITE'')
     \<in> range (\<lambda>msg. Inl (InvalidRequest msg))"
  "create_multipart_upload_checksum h (Some ''SHA1'') (Some ''FULL_OBJECT'')
     \<in> range (\<lambda>msg. Inl (InvalidRequest msg))"
  "create_multipart_upload_checksum h (Some ''SHA256'') (Some ''FULL_OBJECT'')
     \<in> range (\<lambda>msg. Inl (InvalidRequest msg))"
  by (simp_all add: create_multipart_upload_checksum_def truthy_def upper_def upper_char_def)

lemma example_create_hyps:
  "create_multipart_upload_validate passing_helpers (example_create a t) = Inr None"
  "create_multipart_upload_parameters passing_helpers (example_create a t) = None"
  "ChecksumAlgorithm (example_create a t) = a"
  "ChecksumType (example_create a t) = t"
  "CHECKSUM_ALGORITHMS (passing_helpers :: create_multipart_upload_request helpers)
     = [''CRC32'', ''CRC32C'', ''SHA1'', ''SHA256'', ''CRC64NVME'']"
  by (simp_all add: create_multipart_upload_validate_def create_multipart_upload_parameters_def
      example_create_def passing_helpers_def truthy_def)

text \<open>
  Claim C7: for a CreateMultipartUpload request that passes the checks at the head of the
  operation. When the request names no checksum type and names a supported checksum
  algorithm, and the helpers called after the checksum block raise nothing, the upload is
  created with the type FULL_OBJECT for the algorithm CRC64NVME and COMPOSITE for every
  other algorithm, and the response reports that type. The type COMPOSITE with CRC64NVME,
  and FULL_OBJECT with SHA1 or SHA256, are rejected with InvalidRequest, the state
  unchanged.
\<close>

theorem create_multipart_upload_checksum_type:
  assumes "create_multipart_upload_validate h request = Inr tagging_parsed"
  shows "(\<not> truthy (ChecksumType request) \<and> truthy (ChecksumAlgorithm request) \<and>
          the (ChecksumAlgorithm request) \<in> set (CHECKSUM_ALGORITHMS h) \<and>
          create_multipart_upload_parameters h request = None \<longrightarrow>
            (\<exists>response st' s3_multipart.
               create_multipart_upload h st request = (Inr response, st') \<and>
               ResponseChecksumType response =
                 Some (if ChecksumAlgorithm request = Some ''CRC64NVME''
                       then ''FULL_OBJECT'' else ''COMPOSITE'') \<and>
               map_of (multiparts (bucket st')) (UploadId response) = Some s3_multipart \<and>
               mp_checksum_type s3_multipart = ResponseChecksumType response)) \<and>
         (ChecksumType request = Some ''COMPOSITE'' \<and>
          ChecksumAlgorithm request = Some ''CRC64NVME'' \<longrightarrow>
            (\<exists>msg. create_multipart_upload h st request = (Inl (InvalidRequest msg), st))) \<and>
         (ChecksumType request = Some ''FULL_OBJECT'' \<and>
          (ChecksumAlgorithm request = Some ''SHA1'' \<or>
           ChecksumAlgorithm request = Some ''SHA256'') \<longrightarrow>
            (\<exists>msg. create_multipart_upload h st request = (Inl (InvalidRequest msg), st)))"
proof -
  have a: "\<not> truthy (ChecksumType request) \<Longrightarrow> truthy (ChecksumAlgorithm request) \<Longrightarrow>
          the (ChecksumAlgorithm request) \<in> set (CHECKSUM_ALGORITHMS h) \<Longrightarrow>
          create_multipart_upload_parameters h request = None \<Longrightarrow>
            (\<exists>response st' s3_multipart.
               create_multipart_upload h st request = (Inr response, st') \<and>
               ResponseChecksumType response =
                 Some (if ChecksumAlgorithm request = Some ''CRC64NVME''
                       then ''FULL_OBJECT'' else ''COMPOSITE'') \<and>
               map_of (multiparts (bucket st')) (UploadId response) = Some s3_multipart \<and>
               mp_checksum_type s3_multipart = ResponseChecksumType response)"
    using assms
    by (simp add: create_multipart_upload_def create_multipart_upload_checksum_default
        create_multipart_upload_register_def Let_def map_of_registered del: map_of_append)
  have b: "ChecksumType request = Some ''COMPOSITE'' \<Longrightarrow>
          ChecksumAlgorithm request = Some ''CRC64NVME'' \<Longrightarrow>
            (\<exists>msg. create_multipart_upload h st request = (Inl (InvalidRequest msg), st))"
    using assms create_multipart_upload_checksum_rejects(1) [of h]
    by (auto simp: create_multipart_upload_def)
  have c: "ChecksumType request = Some ''FULL_OBJECT'' \<Longrightarrow>
          ChecksumAlgorithm request = Some ''SHA1'' \<or>
           ChecksumAlgorithm request = Some ''SHA256'' \<Longrightarrow>
            (\<exists>msg. create_multipart_upload h st request = (Inl (InvalidRequest msg), st))"
    using assms create_multipart_upload_checksum_rejects(2,3) [of h]
    by (auto simp: create_multipart_upload_def)
  show ?thesis using a b c by blast
qed

theorem create_multipart_upload_checksum_type_witness:
  "(\<exists>response st'. create_multipart_upload passing_helpers (example_state (example_bucket None []))
        (example_create (Some ''CRC64NVME'') None) = (Inr response, st') \<and>
      ResponseChecksumType response = Some ''FULL_OBJECT'') \<and>
   (\<exists>response st'. create_multipart_upload passing_helpers (example_state (example_bucket None []))
        (example_create (Some ''SHA1'') None) = (Inr response, st') \<and>
      ResponseChecksumType response = Some ''COMPOSITE'') \<and>
   (\<exists>msg. create_multipart_upload passing_helpers (example_state (example_bucket None []))
        (example_create (Some ''CRC64NVME'') (Some ''COMPOSITE''))
      = (Inl (InvalidRequest msg), example_state (example_bucket None []))) \<and>
   (\<exists>msg. create_multipart_upload passing_helpers (example_state (example_bucket None []))
        (example_create (Some ''SHA256'') (Some ''FULL_OBJECT''))
      = (Inl (InvalidRequest msg), example_state (example_bucket None [])))"
proof -
  let ?st = "example_state (example_bucket None [])"
  note c1 = create_multipart_upload_checksum_type [OF example_create_hyps(1),
      where st = ?st and a1 = "Some ''CRC64NVME''" and t1 = None]
  note c2 = create_multipart_upload_checksum_type [OF example_create_hyps(1),
      where st = ?st and a1 = "Some ''SHA1''" and t1 = None]
  note c3 = create_multipart_upload_checksum_type [OF example_create_hyps(1),
      where st = ?st and a1 = "Some ''CRC64NVME''" and t1 = "Some ''COMPOSITE''"]
  note c4 = create_multipart_upload_checksum_type [OF example_create_hyps(1),
      where st = ?st and a1 = "Some ''SHA256''" and t1 = "Some ''FULL_OBJECT''"]
  have e1: "\<exists>response st'. create_multipart_upload passing_helpers ?st
        (example_create (Some ''CRC64NVME'') None) = (Inr response, st') \<and>
      ResponseChecksumType response = Some ''FULL_OBJECT''"
    using c1 by (simp add: example_create_hyps truthy_def) blast
  have e2: "\<exists>response st'. create_multipart_upload passing_helpers ?st
        (example_create (Some ''SHA1'') None) = (Inr response, st') \<and>
      ResponseChecksumType response = Some ''COMPOSITE''"
    using c2 by (simp add: example_create_hyps truthy_def) blast
  have e3: "\<exists>msg. create_multipart_upload passing_helpers ?st
        (example_create (Some ''CRC64NVME'') (Some ''COMPOSITE''))
      = (Inl (InvalidRequest msg), ?st)"
    using c3 by (simp add: example_create_hyps)
  have e4: "\<exists>msg. create_multipart_upload passing_helpers ?st
        (example_create (Some ''SHA256'') (Some ''FULL_OBJECT''))
      = (Inl (InvalidRequest msg), ?st)"
    using c4 by (simp add: example_create_hyps)
  show ?thesis using e1 e2 e3 e4 by blast
qed

section \<open>DeleteObject in a bucket without versioning\<close>

lemma ks_pop_missing:
  assumes "k \<notin> fst ` set store"
  shows "ks_pop store k = (None, store)"
proof -
  have "map_of store k = None" using assms by (simp add: map_of_eq_None_iff)
  moreover have "filter (\<lambda>(k', vs). k' \<noteq> k) store = store"
    using assms by (induction store) auto
  ultimately show ?thesis by (simp add: ks_pop_def ks_get_def ks_versions_def)
qed

text \<open>
  Claim C10: in a bucket whose versioning status is unset, DeleteObject with the version
  id \<^verbatim>\<open>null\<close> does exactly what it does without a version id (the tag entry it
  removes is named by a helper outside the file, taken to give one name for both), and
  raises InvalidArgument, the state unchanged, for every other non-empty version id.
  Deleting a key that the bucket does not have, with no version id or \<^verbatim>\<open>null\<close>, in
  a request that passes the check on the governance bypass header, returns the empty
  output and leaves the state as it was.
\<close>

theorem delete_object_unversioned:
  assumes "versioning_status (bucket st) = None"
  shows "(get_unique_key_id h (do_key request) (Some ''null'')
            = get_unique_key_id h (do_key request) None \<longrightarrow>
          delete_object h st (request\<lparr>do_version_id := Some ''null''\<rparr>)
            = delete_object h st (request\<lparr>do_version_id := None\<rparr>)) \<and>
         (truthy (do_version_id request) \<and> do_version_id request \<noteq> Some ''null'' \<longrightarrow>
            (\<exists>name. delete_object h st request = (Inl (InvalidArgument name), st))) \<and>
         ((bypass_governance_retention request = None \<or> object_lock_enabled (bucket st)) \<and>
          (\<not> truthy (do_version_id request) \<or> do_version_id request = Some ''null'') \<and>
          do_key request \<notin> fst ` set (objects (bucket st)) \<longrightarrow>
            delete_object h st request =
              (Inr \<lparr>DeletedVersionId = None, DeleteMarker = None\<rparr>, st))"
proof -
  have a: "get_unique_key_id h (do_key request) (Some ''null'')
            = get_unique_key_id h (do_key request) None \<Longrightarrow>
          delete_object h st (request\<lparr>do_version_id := Some ''null''\<rparr>)
            = delete_object h st (request\<lparr>do_version_id := None\<rparr>)"
    using assms by (simp add: delete_object_def Let_def truthy_def split: prod.splits option.splits)
  have b: "truthy (do_version_id request) \<Longrightarrow> do_version_id request \<noteq> Some ''null'' \<Longrightarrow>
            (\<exists>name. delete_object h st request = (Inl (InvalidArgument name), st))"
    using assms by (simp add: delete_object_def Let_def)
  have c: "bypass_governance_retention request = None \<or> object_lock_enabled (bucket st) \<Longrightarrow>
          \<not> truthy (do_version_id request) \<or> do_version_id request = Some ''null'' \<Longrightarrow>
          do_key request \<notin> fst ` set (objects (bucket st)) \<Longrightarrow>
            delete_object h st request =
              (Inr \<lparr>DeletedVersionId = None, DeleteMarker = None\<rparr>, st)"
    using assms by (auto simp: delete_object_def Let_def ks_pop_missing)
  show ?thesis using a b c by blast
qed

theorem delete_object_unversioned_witness:
  "delete_object passing_helpers (example_state (example_bucket None [example_object ''a'' ''e0'' 7]))
       ((example_delete ''a'' None)\<lparr>do_version_id := Some ''null''\<rparr>)
     = delete_object passing_helpers
         (example_state (example_bucket None [example_object ''a'' ''e0'' 7]))
         ((example_delete ''a'' None)\<lparr>do_version_id := None\<rparr>) \<and>
   (\<exists>name. delete_object passing_helpers
       (example_state (example_bucket None [example_object ''a'' ''e0'' 7]))
       (example_delete ''a'' (Some ''v1''))
     = (Inl (InvalidArgument name),
        example_state (example_bucket None [example_object ''a'' ''e0'' 7]))) \<and>
   delete_object passing_helpers (example_state (example_bucket None [example_object ''a'' ''e0'' 7]))
       (example_delete ''zz'' None)
     = (Inr \<lparr>DeletedVersionId = None, DeleteMarker = None\<rparr>,
        example_state (example_bucket None [example_object ''a'' ''e0'' 7]))"
proof -
  let ?st = "example_state (example_bucket None [example_object ''a'' ''e0'' 7])"
  have h: "versioning_status (bucket ?st) = None"
    by (simp add: example_state_def example_bucket_def)
  have f: "\<And>k v. do_key (example_delete k v) = k" "\<And>k v. do_version_id (example_delete k v) = v"
    "\<And>k v. bypass_governance_retention (example_delete k v) = None"
    "\<And>k. get_unique_key_id (passing_helpers :: delete_object_request helpers) k (Some ''null'')
        = get_unique_key_id (passing_helpers :: delete_object_request helpers) k None"
    "objects (bucket ?st) = [(''a'', [S3Object (example_object ''a'' ''e0'' 7)])]"
    by (simp_all add: example_delete_def passing_helpers_def truthy_def example_state_def
        example_bucket_def example_object_def)
  note c1 = delete_object_unversioned [OF h, of passing_helpers "example_delete ''a'' None"]
  note c2 = delete_object_unversioned [OF h, of passing_helpers "example_delete ''a'' (Some ''v1'')"]
  note c3 = delete_object_unversioned [OF h, of passing_helpers "example_delete ''zz'' None"]
  show ?thesis using c1 c2 c3 by (simp add: f truthy_def)
qed

end
